theory Spec2Isabelle
  imports Main
begin

chapter \<open>Package operation modules (pacman, paru, pacstrap) of the Calamares configuration\<close>

text \<open>
  A shallow embedding of the Python modules \<^verbatim>\<open>pacman/main.py\<close>, \<^verbatim>\<open>paru/main.py\<close>,
  \<^verbatim>\<open>pacstrap/main.py\<close> and \<^verbatim>\<open>pacstrap/pkgcheck.py\<close>.

  \<^item> Python strings are \<open>string\<close>; Python integers are \<open>int\<close>.
  \<^item> A package entry is a \<^verbatim>\<open>str\<close> or a \<^verbatim>\<open>dict\<close>. Dictionaries are objects that the
    code mutates in place (\<^verbatim>\<open>packagedata["package"] = packagename\<close>), so they live in an
    explicit heap and an entry holds a reference.
  \<^item> An operation is a \<^verbatim>\<open>dict\<close> from keys to values in insertion order: an association
    list. A value is a list of entries or a string (the \<^verbatim>\<open>source\<close> tag).
  \<^item> Module globals, the manager's attributes, the heap and everything the code does to
    the outside (commands run, progress pushed, log lines) are fields of one state record
    that every function takes and returns.
  \<^item> An exception is the \<open>Inl\<close> of a sum; the state it leaves behind is kept.
  \<^item> The outside world answers each command through a function \<open>orc\<close> of the number
    of commands run so far and of the command line.
\<close>

section \<open>Strings\<close>

text \<open>\<^verbatim>\<open>sub in s\<close> on strings: \<open>sub\<close> occurs in \<open>s\<close> as a contiguous block.\<close>

fun starts_with :: "string \<Rightarrow> string \<Rightarrow> bool" where
  "starts_with [] s = True"
| "starts_with (c # sub) [] = False"
| "starts_with (c # sub) (d # s) = (c = d \<and> starts_with sub s)"

fun contains :: "string \<Rightarrow> string \<Rightarrow> bool" where
  "contains sub [] = (sub = [])"
| "contains sub (c # s) = (starts_with sub (c # s) \<or> contains sub s)"

text \<open>\<^verbatim>\<open>str.lower()\<close>, on the ASCII letters.\<close>

definition lower_char :: "char \<Rightarrow> char" where
  "lower_char c =
     (case map_of (zip ''ABCDEFGHIJKLMNOPQRSTUVWXYZ'' ''abcdefghijklmnopqrstuvwxyz'') c of
        None \<Rightarrow> c
      | Some l \<Rightarrow> l)"

definition lower :: "string \<Rightarrow> string" where
  "lower s = map lower_char s"

text \<open>\<^verbatim>\<open>s.split(" ")\<close>: the pieces between single spaces, empty pieces kept.\<close>

fun split_space :: "string \<Rightarrow> string list" where
  "split_space [] = [[]]"
| "split_space (c # cs) =
     (if c = CHR '' '' then [] # split_space cs
      else (case split_space cs of
              [] \<Rightarrow> [[c]]
            | w # ws \<Rightarrow> (c # w) # ws))"

text \<open>\<^verbatim>\<open>s.strip()\<close>, on the ASCII white space, and \<^verbatim>\<open>s.endswith(suffix)\<close>.\<close>

definition is_space :: "char \<Rightarrow> bool" where
  "is_space c =
     (c \<in> set [CHR '' '', CHR 0x09, CHR 0x0A, CHR 0x0B, CHR 0x0C, CHR 0x0D,
               CHR 0x1C, CHR 0x1D, CHR 0x1E, CHR 0x1F])"

definition strip :: "string \<Rightarrow> string" where
  "strip s = rev (dropWhile is_space (rev (dropWhile is_space s)))"

definition ends_with :: "string \<Rightarrow> string \<Rightarrow> bool" where
  "ends_with suffix s = starts_with (rev suffix) (rev s)"

section \<open>\<^verbatim>\<open>string.Template(...).safe_substitute(LOCALE=locale)\<close>\<close>

text \<open>
  The standard library's template pattern is
  \<^verbatim>\<open>\$(?: (?P<escaped>\$) | (?P<named>id) | {(?P<braced>id)} | (?P<invalid>) )\<close>
  with \<^verbatim>\<open>id = (?a:[_a-z][_a-z0-9]*)\<close> and the flag \<^verbatim>\<open>re.IGNORECASE\<close>.
  \<open>match_delim\<close> is the match of the pattern on the text that follows a \<^verbatim>\<open>$\<close>: the
  group that matched and the text left after the match.
\<close>

definition is_id_start :: "char \<Rightarrow> bool" where
  "is_id_start c = (c \<in> set ''_abcdefghijklmnopqrstuvwxyzABCDEFGHIJKLMNOPQRSTUVWXYZ'')"

definition is_id_char :: "char \<Rightarrow> bool" where
  "is_id_char c = (is_id_start c \<or> c \<in> set ''0123456789'')"

datatype tmatch = Escaped | Named string | Braced string | Invalid

definition match_delim :: "string \<Rightarrow> tmatch \<times> string" where
  "match_delim cs =
     (case cs of
        [] \<Rightarrow> (Invalid, [])
      | d # ds \<Rightarrow>
          if d = CHR ''$'' then (Escaped, ds)
          else if is_id_start d
          then (Named (takeWhile is_id_char cs), dropWhile is_id_char cs)
          else if d = CHR ''{''
                  \<and> (case ds of [] \<Rightarrow> False | e # _ \<Rightarrow> is_id_start e)
                  \<and> (case dropWhile is_id_char ds of [] \<Rightarrow> False | e # _ \<Rightarrow> e = CHR ''}'')
          then (Braced (takeWhile is_id_char ds), tl (dropWhile is_id_char ds))
          else (Invalid, cs))"

text \<open>
  \<^verbatim>\<open>convert(mo)\<close> of \<^verbatim>\<open>safe_substitute\<close>, with the mapping \<^verbatim>\<open>{"LOCALE": locale}\<close>: a name
  that is not a key of the mapping is put back as it was written.
\<close>

definition convert :: "string \<Rightarrow> tmatch \<Rightarrow> string" where
  "convert locale m =
     (case m of
        Named n \<Rightarrow> if n = ''LOCALE'' then locale else CHR ''$'' # n
      | Braced n \<Rightarrow> if n = ''LOCALE'' then locale else ''${'' @ n @ ''}''
      | Escaped \<Rightarrow> ''$''
      | Invalid \<Rightarrow> ''$'')"

lemma match_delim_length: "match_delim cs = (m, rest) \<Longrightarrow> length rest \<le> length cs"
proof (cases cs)
  case Nil
  then show "match_delim cs = (m, rest) \<Longrightarrow> length rest \<le> length cs"
    by (simp add: match_delim_def)
next
  case (Cons d ds)
  have a: "length (dropWhile is_id_char cs) \<le> length cs"
    by (rule length_dropWhile_le)
  have b: "length (tl (dropWhile is_id_char ds)) \<le> length cs"
    using length_dropWhile_le[of is_id_char ds] Cons by simp
  assume "match_delim cs = (m, rest)"
  with Cons a b show "length rest \<le> length cs"
    by (auto simp: match_delim_def split: if_splits)
qed

function safe_substitute :: "string \<Rightarrow> string \<Rightarrow> string" where
  "safe_substitute locale [] = []"
| "safe_substitute locale (c # cs) =
     (if c = CHR ''$''
      then (case match_delim cs of (m, rest) \<Rightarrow> convert locale m @ safe_substitute locale rest)
      else c # safe_substitute locale cs)"
  by pat_completeness auto
termination
  by (relation "measure (\<lambda>(locale, t). length t)")
     (auto dest!: match_delim_length[OF sym] simp: le_imp_less_Suc)

section \<open>Data model\<close>

type_synonym ref = nat

text \<open>The keys of a structured package entry that the code reads; \<open>None\<close> is a missing key.\<close>

record pkgdata =
  package :: "string option"
  pre_script :: "string option"
  post_script :: "string option"

datatype entry = Str string | Obj ref

type_synonym heap = "ref \<Rightarrow> pkgdata"

datatype pyval = VStr string | VList "entry list"

type_synonym operation = "(string \<times> pyval) list"

text \<open>\<^verbatim>\<open>for x in v\<close>: a list gives its elements, a string its characters as strings.\<close>

definition iterate :: "pyval \<Rightarrow> entry list" where
  "iterate v = (case v of VList xs \<Rightarrow> xs | VStr s \<Rightarrow> map (\<lambda>c. Str [c]) s)"

text \<open>\<^verbatim>\<open>d[k] = v\<close> on a dictionary: an old key keeps its place, a new one goes last.\<close>

fun dict_set :: "('k \<times> 'v) list \<Rightarrow> 'k \<Rightarrow> 'v \<Rightarrow> ('k \<times> 'v) list" where
  "dict_set [] k v = [(k, v)]"
| "dict_set ((k', v') # d) k v =
     (if k' = k then (k, v) # d else (k', v') # dict_set d k v)"

datatype mode = INSTALL | REMOVE | NoMode

text \<open>
  A float is kept as the expression that made it: the quotient
  \<^verbatim>\<open>completed_packages * 1.0 / total_packages\<close> or one of the literals \<^verbatim>\<open>0.0\<close>, \<^verbatim>\<open>1.0\<close>.
\<close>

datatype pyfloat = Ratio int int | Lit0 | Lit1

datatype exn =
    CalledProcessError "string list" int
  | KeyError
  | TypeError
  | PacmanError "string list" int

datatype message =
    EmptyEntry string entry
  | DroppingMissing string string
  | DroppedEntry string entry
  | UnknownKey string
  | PackageListFrom pyval
  | CouldNotInstall entry
  | CouldNotRemove entry
  | SkippedNoInternet
  | PrettyName
  | ExnText exn
  | Stdout exn
  | Stderr exn
  | SudoersFailed
  | CacheDirFailed
  | ChageFailed
  | ParuTimedOut int
  | ParuCommandFailed "string list"
  | ParuInstallPackageFailed exn
  | ParuRemovePackageFailed exn
  | ParuOperationFailed exn
  | RepoIndex nat nat
  | NoBootloader
  | CurrentBootloader string
  | RootOnBtrfs
  | SyncDisabled
  | NoInternetNoSync
  | Syncing
  | SyncFailed exn
  | PkgcheckFailedText exn
  | AllFilteredOut
  | Copying string
  | CopyFailed string
  | Line string
  | HostLine string

text \<open>
  The callback given to \<^verbatim>\<open>target_env_process_output\<close>: none, the \<^verbatim>\<open>line_cb\<close> of a manager
  (with the prefix of its status text), or the \<^verbatim>\<open>cb\<close> of pkgcheck that collects the lines.
\<close>

datatype callback = NoCallback | LineCb string | Capture

text \<open>
  What the code does to the outside, in order: a command in the target
  (\<^verbatim>\<open>target_env_process_output\<close>, with its callback; \<^verbatim>\<open>check_target_env_call\<close>),
  a command on the host, \<^verbatim>\<open>libcalamares.job.setprogress\<close>, a log line, the build environment
  of paru, \<^verbatim>\<open>globalstorage.insert("online", True)\<close>, a file copy.
\<close>

datatype event =
    Exec "string list" callback
  | CheckCall "string list"
  | HostExec "string list"
  | SetProgress pyfloat
  | Warning message
  | Debug message
  | SetBuildEnv
  | StoreOnline
  | CopyFile string

record state =
  heap :: heap
  trace :: "event list"
  calls :: nat
  total_packages :: int
  completed_packages :: int
  group_packages :: int
  mode_packages :: mode
  custom_status_message :: "string option"
  in_package_changes :: bool
  progress_fraction :: pyfloat

text \<open>
  What the outside world answers to a command: its exit code, whether it is still running
  when a configured timeout expires, the lines it prints, and for each line that reaches
  the callback of the pacstrap module whether more than half a second has passed since
  that callback last pushed (no flag is no).
\<close>

record reply =
  returncode :: int
  late :: bool
  lines :: "string list"
  redraw :: "bool list"

type_synonym world = "nat \<Rightarrow> string list \<Rightarrow> reply"

type_synonym 'a comp = "state \<Rightarrow> (exn + 'a) \<times> state"

definition emit :: "event \<Rightarrow> state \<Rightarrow> state" where
  "emit e s = s\<lparr>trace := trace s @ [e]\<rparr>"

definition andthen :: "'a comp \<Rightarrow> ('a \<Rightarrow> 'b comp) \<Rightarrow> 'b comp" where
  "andthen m f s = (case m s of (Inl e, s') \<Rightarrow> (Inl e, s') | (Inr x, s') \<Rightarrow> f x s')"

text \<open>\<^verbatim>\<open>if b: m\<close>, as a statement.\<close>

definition guarded :: "bool \<Rightarrow> unit comp \<Rightarrow> unit comp" where
  "guarded b m s = (if b then m s else (Inr (), s))"

text \<open>
  \<^verbatim>\<open>line_cb\<close> of \<^verbatim>\<open>PacmanManager\<close> and of \<^verbatim>\<open>ParuManager\<close>, which differ in the prefix of the
  status text.
\<close>

definition line_cb :: "string \<Rightarrow> string \<Rightarrow> state \<Rightarrow> state" where
  "line_cb prefix line s =
     emit (Debug (Line (strip line)))
       (if starts_with '':: '' line
        then s\<lparr>in_package_changes := (contains ''package'' line \<or> contains ''hooks'' line)\<rparr>
        else if in_package_changes s \<and> ends_with (''...'' @ [CHR 0x0A]) line
        then emit (SetProgress (progress_fraction s))
               (s\<lparr>custom_status_message := Some (prefix @ strip line)\<rparr>)
        else s)"

text \<open>
  \<^verbatim>\<open>libcalamares.utils.target_env_process_output(command[, callback])\<close>: runs the command,
  hands its lines to the callback and raises \<^verbatim>\<open>CalledProcessError\<close> on a non-zero exit.
  Its value here is the lines, which is what the collecting callback keeps.
\<close>

definition target_env_process_output ::
  "world \<Rightarrow> string list \<Rightarrow> callback \<Rightarrow> string list comp" where
  "target_env_process_output orc command cb s =
     (let r = orc (calls s) command;
          s1 = emit (Exec command cb) (s\<lparr>calls := Suc (calls s)\<rparr>);
          s' = (case cb of LineCb prefix \<Rightarrow> fold (line_cb prefix) (lines r) s1 | _ \<Rightarrow> s1)
      in if returncode r = 0 then (Inr (lines r), s')
         else (Inl (CalledProcessError command (returncode r)), s'))"

definition check_target_env_call :: "world \<Rightarrow> string list \<Rightarrow> unit comp" where
  "check_target_env_call orc command s =
     (let r = orc (calls s) command;
          s' = emit (CheckCall command) (s\<lparr>calls := Suc (calls s)\<rparr>)
      in if returncode r = 0 then (Inr (), s')
         else (Inl (CalledProcessError command (returncode r)), s'))"

section \<open>\<^verbatim>\<open>subst_locale\<close> (the same text in pacman/main.py and paru/main.py)\<close>

definition packagename_of :: "heap \<Rightarrow> entry \<Rightarrow> string option" where
  "packagename_of h packagedata =
     (case packagedata of Str name \<Rightarrow> Some name | Obj r \<Rightarrow> package (h r))"

text \<open>The name after the locale step; \<open>None\<close> is the \<^verbatim>\<open>packagename = None\<close> of the code.\<close>

definition localize :: "string \<Rightarrow> string \<Rightarrow> string option" where
  "localize locale packagename =
     (if locale \<noteq> ''en'' then Some (safe_substitute locale packagename)
      else if contains ''LOCALE'' packagename then None
      else Some packagename)"

fun subst_locale_loop :: "string \<Rightarrow> entry list \<Rightarrow> heap \<Rightarrow> entry list \<times> heap" where
  "subst_locale_loop locale [] h = ([], h)"
| "subst_locale_loop locale (packagedata # plist) h =
     (case packagename_of h packagedata of
        None \<Rightarrow> subst_locale_loop locale plist h
      | Some packagename \<Rightarrow>
          (case localize locale packagename of
             None \<Rightarrow> subst_locale_loop locale plist h
           | Some name \<Rightarrow>
               (case packagedata of
                  Str _ \<Rightarrow>
                    (case subst_locale_loop locale plist h of
                       (ret, h') \<Rightarrow> (Str name # ret, h'))
                | Obj r \<Rightarrow>
                    (case subst_locale_loop locale plist (h(r := (h r)\<lparr>package := Some name\<rparr>)) of
                       (ret, h') \<Rightarrow> (Obj r # ret, h')))))"

text \<open>\<^verbatim>\<open>libcalamares.globalstorage.value("locale") or "en"\<close>\<close>

definition locale_or_en :: "string option \<Rightarrow> string" where
  "locale_or_en v = (case v of None \<Rightarrow> ''en'' | Some l \<Rightarrow> if l = [] then ''en'' else l)"

definition subst_locale :: "string option \<Rightarrow> pyval \<Rightarrow> state \<Rightarrow> entry list \<times> state" where
  "subst_locale gs_locale plist s =
     (case subst_locale_loop (locale_or_en gs_locale) (iterate plist) (heap s) of
        (ret, h) \<Rightarrow> (ret, s\<lparr>heap := h\<rparr>))"

section \<open>pkgcheck.py\<close>

definition falsy_name :: "string option \<Rightarrow> bool" where
  "falsy_name name = (case name of None \<Rightarrow> True | Some n \<Rightarrow> n = [])"

fun filter_operation_list ::
  "string \<Rightarrow> entry list \<Rightarrow> string set \<Rightarrow> string set \<Rightarrow> state \<Rightarrow> entry list \<times> state" where
  "filter_operation_list action_key [] repo_pkgs repo_groups s = ([], s)"
| "filter_operation_list action_key (item # items) repo_pkgs repo_groups s =
     (let name = packagename_of (heap s) item in
      if falsy_name name
      then filter_operation_list action_key items repo_pkgs repo_groups
             (emit (Warning (EmptyEntry action_key item)) s)
      else if the name \<in> repo_pkgs \<or> the name \<in> repo_groups
      then (case filter_operation_list action_key items repo_pkgs repo_groups s of
              (kept, s') \<Rightarrow> (item # kept, s'))
      else filter_operation_list action_key items repo_pkgs repo_groups
             (emit (Debug (DroppedEntry action_key item))
                (emit (Warning (DroppingMissing action_key (the name))) s)))"

definition filter_keys :: "string set" where
  "filter_keys = {''install'', ''try_install'', ''remove'', ''try_remove''}"

fun preprocess_items ::
  "string option \<Rightarrow> string set \<Rightarrow> string set \<Rightarrow> operation \<Rightarrow> operation \<Rightarrow> int \<Rightarrow> state
     \<Rightarrow> (operation \<times> int) \<times> state" where
  "preprocess_items gs_locale repo_pkgs repo_groups [] new_op tot s = ((new_op, tot), s)"
| "preprocess_items gs_locale repo_pkgs repo_groups ((key, raw_list) # items) new_op tot s =
     (case subst_locale gs_locale raw_list s of
        (localized, s1) \<Rightarrow>
          if key \<in> filter_keys
          then (case filter_operation_list key localized repo_pkgs repo_groups s1 of
                  (filtered, s2) \<Rightarrow>
                    preprocess_items gs_locale repo_pkgs repo_groups items
                      (dict_set new_op key (VList filtered)) (tot + int (length filtered)) s2)
          else if key = ''localInstall''
          then preprocess_items gs_locale repo_pkgs repo_groups items
                 (dict_set new_op key (VList localized)) (tot + int (length localized)) s1
          else preprocess_items gs_locale repo_pkgs repo_groups items
                 (dict_set new_op key (VList localized)) tot s1)"

text \<open>\<^verbatim>\<open>any(isinstance(v, list) and len(v) for v in new_op.values())\<close>\<close>

definition any_nonempty_list :: "operation \<Rightarrow> bool" where
  "any_nonempty_list new_op =
     list_ex (\<lambda>(k, v). case v of VList xs \<Rightarrow> xs \<noteq> [] | VStr _ \<Rightarrow> False) new_op"

fun preprocess_loop ::
  "string option \<Rightarrow> string set \<Rightarrow> string set \<Rightarrow> operation list \<Rightarrow> operation list \<Rightarrow> int \<Rightarrow> state
     \<Rightarrow> (operation list \<times> int) \<times> state" where
  "preprocess_loop gs_locale repo_pkgs repo_groups [] new_ops tot s = ((new_ops, tot), s)"
| "preprocess_loop gs_locale repo_pkgs repo_groups (op # operations) new_ops tot s =
     (case preprocess_items gs_locale repo_pkgs repo_groups op [] tot s of
        ((new_op, tot'), s') \<Rightarrow>
          preprocess_loop gs_locale repo_pkgs repo_groups operations
            (if any_nonempty_list new_op then new_ops @ [new_op] else new_ops) tot' s')"

definition preprocess_operations ::
  "operation list \<Rightarrow> string option \<Rightarrow> string set \<Rightarrow> string set \<Rightarrow> state
     \<Rightarrow> (operation list \<times> int) \<times> state" where
  "preprocess_operations operations gs_locale repo_pkgs repo_groups s =
     preprocess_loop gs_locale repo_pkgs repo_groups operations [] 0 s"

section \<open>Job configuration and global storage\<close>

text \<open>
  What \<^verbatim>\<open>libcalamares.job.configuration\<close> and \<^verbatim>\<open>libcalamares.globalstorage\<close> hold, with the
  defaults of the \<^verbatim>\<open>get\<close> calls already applied to the flags and to the manager's settings
  (\<^verbatim>\<open>num_retries\<close> 0, the others false, \<^verbatim>\<open>timeout\<close> 0). \<open>str_of_list\<close> is \<^verbatim>\<open>str\<close> on a list,
  \<open>pacman_path\<close> is \<^verbatim>\<open>shutil.which("pacman")\<close>.
\<close>

record job =
  cfg_backend :: "string option"
  cfg_skip_if_no_internet :: bool
  cfg_update_db :: bool
  cfg_update_system :: bool
  cfg_operations :: "operation list"
  cfg_num_retries :: int
  cfg_disable_download_timeout :: bool
  cfg_needed_only :: bool
  cfg_timeout :: int
  gs_locale :: "string option"
  gs_has_internet :: bool
  gs_package_operations :: "operation list option"
  str_of_list :: "entry list \<Rightarrow> string"
  pacman_path :: "string option"

datatype job_error =
    BadBackend string
  | PackageManagerError "string list" int
  | UpdateSystemError "string list" int
  | RepositoryQueryFailed "string list" int
  | NoMountPoint
  | BadMountPoint string
  | NoConfiguration
  | PackageListMissing
  | BadConfiguration
  | RepositoryQueryError
  | PkgcheckFailed
  | PacstrapFailed

section \<open>Progress state and helpers shared by pacman/main.py and paru/main.py\<close>

definition progress_push :: "state \<Rightarrow> state" where
  "progress_push s =
     (if total_packages s > 0
      then emit (SetProgress (Ratio (completed_packages s) (total_packages s))) s
      else s)"

definition change_mode :: "mode \<Rightarrow> state \<Rightarrow> state" where
  "change_mode m s = progress_push (s\<lparr>mode_packages := m\<rparr>)"

definition reset_progress :: "state \<Rightarrow> state" where
  "reset_progress s =
     s\<lparr>in_package_changes := False,
       progress_fraction :=
         (if total_packages s > 0 then Ratio (completed_packages s) (total_packages s)
          else Lit0)\<rparr>"

definition get_or_empty :: "string option \<Rightarrow> string" where
  "get_or_empty v = (case v of None \<Rightarrow> [] | Some x \<Rightarrow> x)"

definition run_script :: "world \<Rightarrow> string \<Rightarrow> unit comp" where
  "run_script orc script s =
     (if script \<noteq> [] then check_target_env_call orc (split_space script) s else (Inr (), s))"

definition is_str :: "entry \<Rightarrow> bool" where
  "is_str x = (case x of Str _ \<Rightarrow> True | Obj _ \<Rightarrow> False)"

text \<open>The names of a list whose elements are all strings.\<close>

fun strs :: "entry list \<Rightarrow> string list" where
  "strs [] = []"
| "strs (Str n # xs) = n # strs xs"
| "strs (Obj r # xs) = strs xs"

definition is_called_process_error :: "exn \<Rightarrow> bool" where
  "is_called_process_error e = (case e of CalledProcessError _ _ \<Rightarrow> True | _ \<Rightarrow> False)"

text \<open>\<^verbatim>\<open>self.line_cb\<close> if \<^verbatim>\<open>callback\<close>, else no callback.\<close>

definition line_callback :: "string \<Rightarrow> bool \<Rightarrow> callback" where
  "line_callback prefix callback = (if callback then LineCb prefix else NoCallback)"

text \<open>The attributes that \<^verbatim>\<open>__init__\<close> of a manager sets.\<close>

definition manager_init :: "state \<Rightarrow> state" where
  "manager_init s = s\<lparr>in_package_changes := False, progress_fraction := Lit0\<rparr>"

text \<open>\<^verbatim>\<open>pretty_status_message\<close>, with the translated texts as constructors.\<close>

datatype status_text =
    CustomStatus string
  | ProcessingPackages int int
  | InstallPackages
  | InstallingPackages int
  | RemovingPackages int

definition pretty_status_message :: "state \<Rightarrow> status_text" where
  "pretty_status_message s =
     (case custom_status_message s of
        Some m \<Rightarrow> CustomStatus m
      | None \<Rightarrow>
          if group_packages s = 0
          then (if total_packages s > 0
                then ProcessingPackages (completed_packages s) (total_packages s)
                else InstallPackages)
          else if mode_packages s = INSTALL then InstallingPackages (group_packages s)
          else if mode_packages s = REMOVE then RemovingPackages (group_packages s)
          else InstallPackages)"

section \<open>pacman/main.py: \<^verbatim>\<open>PacmanManager\<close>\<close>

function run_pacman_loop :: "int \<Rightarrow> world \<Rightarrow> string list \<Rightarrow> bool \<Rightarrow> int \<Rightarrow> unit comp" where
  "run_pacman_loop retries orc command callback pacman_count s =
     (if pacman_count \<le> retries
      then (case target_env_process_output orc command
                    (line_callback ''pacman: '' callback) s of
              (Inr _, s') \<Rightarrow> (Inr (), s')
            | (Inl e, s') \<Rightarrow>
                if pacman_count + 1 \<le> retries
                then run_pacman_loop retries orc command callback (pacman_count + 1) s'
                else (Inl e, s'))
      else (Inr (), s))"
  by pat_completeness auto
termination
  by (relation "measure (\<lambda>(retries, orc, command, callback, pacman_count, s).
        nat (retries + 1 - pacman_count))") auto

declare run_pacman_loop.simps [simp del]

definition run_pacman :: "job \<Rightarrow> world \<Rightarrow> string list \<Rightarrow> bool \<Rightarrow> unit comp" where
  "run_pacman job orc command callback s =
     run_pacman_loop (cfg_num_retries job) orc command callback 0 s"

definition pacman_update_db :: "job \<Rightarrow> world \<Rightarrow> unit comp" where
  "pacman_update_db job orc s = run_pacman job orc [''pacman'', ''-Sy''] False s"

definition pacman_update_system :: "job \<Rightarrow> world \<Rightarrow> unit comp" where
  "pacman_update_system job orc s =
     run_pacman job orc
       ([''pacman'', ''-Su'', ''--noconfirm'']
        @ (if cfg_disable_download_timeout job then [''--disable-download-timeout''] else []))
       False s"

definition pacman_install :: "job \<Rightarrow> world \<Rightarrow> string list \<Rightarrow> bool \<Rightarrow> unit comp" where
  "pacman_install job orc pkgs from_local s =
     run_pacman job orc
       ([''pacman'', if from_local then ''-U'' else ''-S'', ''--noconfirm'', ''--noprogressbar'']
        @ (if cfg_needed_only job then [''--needed''] else [])
        @ (if cfg_disable_download_timeout job then [''--disable-download-timeout''] else [])
        @ pkgs)
       True (reset_progress s)"

definition pacman_remove :: "job \<Rightarrow> world \<Rightarrow> string list \<Rightarrow> unit comp" where
  "pacman_remove job orc pkgs s =
     run_pacman job orc ([''pacman'', ''-Rs'', ''--noconfirm''] @ pkgs) True (reset_progress s)"

definition pacman_install_package :: "job \<Rightarrow> world \<Rightarrow> entry \<Rightarrow> bool \<Rightarrow> unit comp" where
  "pacman_install_package job orc packagedata from_local s =
     (case packagedata of
        Str name \<Rightarrow> pacman_install job orc [name] from_local s
      | Obj r \<Rightarrow>
          andthen (run_script orc (get_or_empty (pre_script (heap s r))))
            (\<lambda>_. andthen
               (\<lambda>s1. case package (heap s1 r) of
                        None \<Rightarrow> (Inl KeyError, s1)
                      | Some name \<Rightarrow> pacman_install job orc [name] from_local s1)
               (\<lambda>_ s2. run_script orc (get_or_empty (post_script (heap s2 r))) s2)) s)"

definition pacman_remove_package :: "job \<Rightarrow> world \<Rightarrow> entry \<Rightarrow> unit comp" where
  "pacman_remove_package job orc packagedata s =
     (case packagedata of
        Str name \<Rightarrow> pacman_remove job orc [name] s
      | Obj r \<Rightarrow>
          andthen (run_script orc (get_or_empty (pre_script (heap s r))))
            (\<lambda>_. andthen
               (\<lambda>s1. case package (heap s1 r) of
                        None \<Rightarrow> (Inl KeyError, s1)
                      | Some name \<Rightarrow> pacman_remove job orc [name] s1)
               (\<lambda>_ s2. run_script orc (get_or_empty (post_script (heap s2 r))) s2)) s)"

fun pacman_install_each :: "job \<Rightarrow> world \<Rightarrow> entry list \<Rightarrow> bool \<Rightarrow> unit comp" where
  "pacman_install_each job orc [] from_local s = (Inr (), s)"
| "pacman_install_each job orc (p # package_list) from_local s =
     (case pacman_install_package job orc p from_local s of
        (Inl e, s') \<Rightarrow> (Inl e, s')
      | (Inr _, s') \<Rightarrow> pacman_install_each job orc package_list from_local s')"

definition pacman_operation_install :: "job \<Rightarrow> world \<Rightarrow> entry list \<Rightarrow> bool \<Rightarrow> unit comp" where
  "pacman_operation_install job orc package_list from_local s =
     (if list_all is_str package_list
      then pacman_install job orc (strs package_list) from_local s
      else pacman_install_each job orc package_list from_local s)"

fun pacman_operation_try_install :: "job \<Rightarrow> world \<Rightarrow> entry list \<Rightarrow> unit comp" where
  "pacman_operation_try_install job orc [] s = (Inr (), s)"
| "pacman_operation_try_install job orc (p # package_list) s =
     (case pacman_install_package job orc p False s of
        (Inl e, s') \<Rightarrow>
          if is_called_process_error e
          then pacman_operation_try_install job orc package_list
                 (emit (Warning (CouldNotInstall p)) s')
          else (Inl e, s')
      | (Inr _, s') \<Rightarrow> pacman_operation_try_install job orc package_list s')"

fun pacman_remove_each :: "job \<Rightarrow> world \<Rightarrow> entry list \<Rightarrow> unit comp" where
  "pacman_remove_each job orc [] s = (Inr (), s)"
| "pacman_remove_each job orc (p # package_list) s =
     (case pacman_remove_package job orc p s of
        (Inl e, s') \<Rightarrow> (Inl e, s')
      | (Inr _, s') \<Rightarrow> pacman_remove_each job orc package_list s')"

definition pacman_operation_remove :: "job \<Rightarrow> world \<Rightarrow> entry list \<Rightarrow> unit comp" where
  "pacman_operation_remove job orc package_list s =
     (if list_all is_str package_list
      then pacman_remove job orc (strs package_list) s
      else pacman_remove_each job orc package_list s)"

fun pacman_operation_try_remove :: "job \<Rightarrow> world \<Rightarrow> entry list \<Rightarrow> unit comp" where
  "pacman_operation_try_remove job orc [] s = (Inr (), s)"
| "pacman_operation_try_remove job orc (p # package_list) s =
     (case pacman_remove_package job orc p s of
        (Inl e, s') \<Rightarrow>
          if is_called_process_error e
          then pacman_operation_try_remove job orc package_list
                 (emit (Warning (CouldNotRemove p)) s')
          else (Inl e, s')
      | (Inr _, s') \<Rightarrow> pacman_operation_try_remove job orc package_list s')"

section \<open>pacman/main.py: \<^verbatim>\<open>run_operations\<close>\<close>

text \<open>The chain of \<^verbatim>\<open>if key == ...\<close> of the loop body.\<close>

definition pacman_dispatch :: "job \<Rightarrow> world \<Rightarrow> string \<Rightarrow> pyval \<Rightarrow> entry list \<Rightarrow> unit comp" where
  "pacman_dispatch job orc key val package_list s =
     (if key = ''install''
      then pacman_operation_install job orc package_list False (change_mode INSTALL s)
      else if key = ''try_install''
      then pacman_operation_try_install job orc package_list (change_mode INSTALL s)
      else if key = ''remove''
      then pacman_operation_remove job orc package_list (change_mode REMOVE s)
      else if key = ''try_remove''
      then pacman_operation_try_remove job orc package_list (change_mode REMOVE s)
      else if key = ''localInstall''
      then pacman_operation_install job orc package_list True (change_mode INSTALL s)
      else if key = ''source''
      then (Inr (), emit (Debug (PackageListFrom val)) s)
      else (Inr (), emit (Warning (UnknownKey key)) s))"

text \<open>The body of the loop over the keys of one operation.\<close>

definition pacman_run_key :: "job \<Rightarrow> world \<Rightarrow> string \<times> pyval \<Rightarrow> unit comp" where
  "pacman_run_key job orc kv s =
     (case subst_locale (gs_locale job) (snd kv) s of
        (package_list, s1) \<Rightarrow>
          (case pacman_dispatch job orc (fst kv) (snd kv) package_list
                  (s1\<lparr>group_packages := int (length package_list)\<rparr>) of
             (Inl e, s3) \<Rightarrow> (Inl e, s3)
           | (Inr _, s3) \<Rightarrow>
               (Inr (), progress_push
                  (s3\<lparr>completed_packages :=
                        completed_packages s3 + int (length package_list)\<rparr>))))"

fun pacman_run_keys :: "job \<Rightarrow> world \<Rightarrow> operation \<Rightarrow> unit comp" where
  "pacman_run_keys job orc [] s = (Inr (), s)"
| "pacman_run_keys job orc (kv # entry) s =
     (case pacman_run_key job orc kv s of
        (Inl e, s') \<Rightarrow> (Inl e, s')
      | (Inr _, s') \<Rightarrow> pacman_run_keys job orc entry s')"

definition pacman_run_operations :: "job \<Rightarrow> world \<Rightarrow> operation \<Rightarrow> unit comp" where
  "pacman_run_operations job orc entry s =
     (case pacman_run_keys job orc entry s of
        (Inl e, s') \<Rightarrow> (Inl e, s')
      | (Inr _, s') \<Rightarrow> (Inr (), change_mode NoMode (s'\<lparr>group_packages := 0\<rparr>)))"

section \<open>pacman/main.py: \<^verbatim>\<open>run\<close>\<close>

text \<open>\<^verbatim>\<open>str(entry.get("source", ""))\<close>\<close>

definition py_str :: "job \<Rightarrow> pyval \<Rightarrow> string" where
  "py_str job v = (case v of VStr t \<Rightarrow> t | VList xs \<Rightarrow> str_of_list job xs)"

definition source_tag :: "job \<Rightarrow> operation \<Rightarrow> string" where
  "source_tag job entry = (case map_of entry ''source'' of None \<Rightarrow> [] | Some v \<Rightarrow> py_str job v)"

text \<open>
  \<^verbatim>\<open>operations = configuration.get("operations", [])\<close>, then
  \<^verbatim>\<open>operations += globalstorage.value("packageOperations")\<close> when the key is there.
\<close>

definition all_operations :: "job \<Rightarrow> operation list" where
  "all_operations job =
     cfg_operations job @ (case gs_package_operations job of None \<Rightarrow> [] | Some ops \<Rightarrow> ops)"

fun pacman_filter_loop :: "job \<Rightarrow> operation list \<Rightarrow> operation list \<Rightarrow> operation list" where
  "pacman_filter_loop job [] filtered_ops = filtered_ops"
| "pacman_filter_loop job (entry # operations) filtered_ops =
     (let src = lower (source_tag job entry) in
      if contains ''paru'' src \<or> contains ''flatpak'' src
      then pacman_filter_loop job operations filtered_ops
      else pacman_filter_loop job operations (filtered_ops @ [entry]))"

text \<open>The operations that \<^verbatim>\<open>run\<close> goes on with: \<^verbatim>\<open>operations = filtered_ops\<close>.\<close>

definition pacman_operations :: "job \<Rightarrow> operation list" where
  "pacman_operations job = pacman_filter_loop job (all_operations job) []"

definition rstrip_newline :: "string \<Rightarrow> string" where
  "rstrip_newline l = rev (dropWhile (\<lambda>c. c = CHR 0x0A) (rev l))"

definition target_env_capture_lines :: "world \<Rightarrow> string list \<Rightarrow> string list comp" where
  "target_env_capture_lines orc command s =
     (case target_env_process_output orc command Capture s of
        (Inl e, s') \<Rightarrow> (Inl e, s')
      | (Inr ls, s') \<Rightarrow> (Inr (map rstrip_newline (filter (\<lambda>l. l \<noteq> []) ls)), s'))"

definition build_repo_index :: "world \<Rightarrow> (string set \<times> string set) comp" where
  "build_repo_index orc s =
     (case target_env_capture_lines orc [''pacman'', ''-Slq''] s of
        (Inl e, s1) \<Rightarrow> (Inl e, s1)
      | (Inr pkgs, s1) \<Rightarrow>
          (case target_env_capture_lines orc [''pacman'', ''-Sgq''] s1 of
             (Inl e, s2) \<Rightarrow> (Inl e, s2)
           | (Inr groups, s2) \<Rightarrow>
               (Inr (set pkgs, set groups),
                emit (Debug (RepoIndex (length (remdups pkgs)) (length (remdups groups)))) s2)))"

text \<open>
  The three log lines of an \<^verbatim>\<open>except subprocess.CalledProcessError as e\<close> branch of
  \<^verbatim>\<open>run\<close>, and the command and exit code that its message quotes.
\<close>

definition log_exn :: "exn \<Rightarrow> state \<Rightarrow> state" where
  "log_exn e s = emit (Debug (Stderr e)) (emit (Debug (Stdout e)) (emit (Warning (ExnText e)) s))"

definition exn_cmd :: "exn \<Rightarrow> string list" where
  "exn_cmd e = (case e of CalledProcessError c _ \<Rightarrow> c | PacmanError c _ \<Rightarrow> c | _ \<Rightarrow> [])"

definition exn_returncode :: "exn \<Rightarrow> int" where
  "exn_returncode e = (case e of CalledProcessError _ rc \<Rightarrow> rc | PacmanError _ rc \<Rightarrow> rc | _ \<Rightarrow> 0)"

text \<open>
  A step of \<^verbatim>\<open>run\<close> either ends the run (\<^verbatim>\<open>return\<close>, or an exception that nothing catches)
  or goes on with a value.
\<close>

datatype 'a stage = Finished "exn + job_error option" | Continue 'a

text \<open>
  \<^verbatim>\<open>try: ... except subprocess.CalledProcessError as e: ... return (title, message)\<close>
\<close>

definition except_called_process_error ::
  "(string list \<Rightarrow> int \<Rightarrow> job_error) \<Rightarrow> (exn + 'a) \<times> state \<Rightarrow> 'a stage \<times> state" where
  "except_called_process_error title r =
     (case r of
        (Inl e, s) \<Rightarrow>
          if is_called_process_error e
          then (Finished (Inr (Some (title (exn_cmd e) (exn_returncode e)))), log_exn e s)
          else (Finished (Inl e), s)
      | (Inr x, s) \<Rightarrow> (Continue x, s))"

text \<open>\<^verbatim>\<open>run\<close> up to the end of preprocessing: lines 292 to 366.\<close>

definition pacman_prepare :: "job \<Rightarrow> world \<Rightarrow> state \<Rightarrow> (operation list \<times> int) stage \<times> state" where
  "pacman_prepare job orc s0 =
     (let backend = (case cfg_backend job of None \<Rightarrow> ''pacman'' | Some b \<Rightarrow> b) in
      if backend \<noteq> ''pacman'' then (Finished (Inr (Some (BadBackend backend))), s0)
      else if cfg_skip_if_no_internet job \<and> \<not> gs_has_internet job
      then (Finished (Inr None), emit (Warning SkippedNoInternet) s0)
      else
        (case except_called_process_error PackageManagerError
                (guarded (cfg_update_db job \<and> gs_has_internet job)
                   (pacman_update_db job orc) (manager_init s0)) of
           (Finished r, s1) \<Rightarrow> (Finished r, s1)
         | (Continue _, s1) \<Rightarrow>
             (case except_called_process_error UpdateSystemError
                     (guarded (cfg_update_system job \<and> gs_has_internet job)
                        (pacman_update_system job orc) s1) of
                (Finished r, s2) \<Rightarrow> (Finished r, s2)
              | (Continue _, s2) \<Rightarrow>
                  (case except_called_process_error RepositoryQueryFailed
                          (build_repo_index orc s2) of
                     (Finished r, s3) \<Rightarrow> (Finished r, s3)
                   | (Continue (repo_pkgs, repo_groups), s3) \<Rightarrow>
                       (case preprocess_operations (pacman_operations job)
                               (gs_locale job) repo_pkgs repo_groups s3 of
                          (r, s4) \<Rightarrow> (Continue r, s4))))))"

text \<open>The loop \<^verbatim>\<open>for entry in operations\<close> of \<^verbatim>\<open>run\<close>.\<close>

fun pacman_run_loop :: "job \<Rightarrow> world \<Rightarrow> operation list \<Rightarrow> state \<Rightarrow> unit stage \<times> state" where
  "pacman_run_loop job orc [] s = (Continue (), s)"
| "pacman_run_loop job orc (entry # operations) s =
     (case except_called_process_error PackageManagerError
             (pacman_run_operations job orc entry
                (emit (Debug PrettyName) (s\<lparr>group_packages := 0\<rparr>))) of
        (Finished r, s') \<Rightarrow> (Finished r, s')
      | (Continue _, s') \<Rightarrow> pacman_run_loop job orc operations s')"

text \<open>The assignments to the module globals after preprocessing: lines 368 to 372.\<close>

definition start_progress :: "int \<Rightarrow> state \<Rightarrow> state" where
  "start_progress filtered_total s =
     s\<lparr>mode_packages := NoMode, total_packages := filtered_total,
       completed_packages := 0, group_packages := 0, custom_status_message := None\<rparr>"

text \<open>\<^verbatim>\<open>run\<close> from there: lines 374 to 396.\<close>

definition pacman_execute ::
  "job \<Rightarrow> world \<Rightarrow> operation list \<Rightarrow> state \<Rightarrow> (exn + job_error option) \<times> state" where
  "pacman_execute job orc operations s =
     (if total_packages s = 0 then (Inr None, s)
      else (case pacman_run_loop job orc operations s of
              (Finished r, s') \<Rightarrow> (r, s')
            | (Continue _, s') \<Rightarrow>
                (Inr None, emit (SetProgress Lit1) (s'\<lparr>mode_packages := NoMode\<rparr>))))"

definition pacman_run :: "job \<Rightarrow> world \<Rightarrow> state \<Rightarrow> (exn + job_error option) \<times> state" where
  "pacman_run job orc s0 =
     (case pacman_prepare job orc s0 of
        (Finished r, s1) \<Rightarrow> (r, s1)
      | (Continue (operations, filtered_total), s1) \<Rightarrow>
          pacman_execute job orc operations (start_progress filtered_total s1))"

section \<open>paru/main.py: \<^verbatim>\<open>ParuManager\<close>\<close>

definition sudo_paru :: "string list" where
  "sudo_paru = [''sudo'', ''-E'', ''-u'', ''nobody'', ''paru'']"

definition pkill_command :: "string list" where
  "pkill_command = [''sudo'', ''-E'', ''-u'', ''nobody'', ''pkill'', ''-f'', ''paru'']"

text \<open>
  A call whose \<^verbatim>\<open>CalledProcessError\<close> is caught and logged, as the three commands of
  \<^verbatim>\<open>__init__\<close> are.
\<close>

definition ignoring_failure :: "world \<Rightarrow> string list \<Rightarrow> message \<Rightarrow> state \<Rightarrow> state" where
  "ignoring_failure orc command msg s =
     (case target_env_process_output orc command NoCallback s of
        (Inl e, s') \<Rightarrow> emit (Warning msg) s'
      | (Inr _, s') \<Rightarrow> s')"

text \<open>
  \<^verbatim>\<open>__init__\<close>: the settings are fields of the job; the attributes start as
  \<^verbatim>\<open>in_package_changes = False\<close>, \<^verbatim>\<open>progress_fraction = 0.0\<close>; then the three commands.
  \<^verbatim>\<open>repr\<close> of the sudoers line is written for a path with no quote and no backslash.
\<close>

definition paru_init :: "job \<Rightarrow> world \<Rightarrow> state \<Rightarrow> state" where
  "paru_init job orc s =
     (let path = (case pacman_path job of None \<Rightarrow> ''/usr/bin/pacman''
                  | Some p \<Rightarrow> if p = [] then ''/usr/bin/pacman'' else p);
          sudoers_line = ''nobody ALL=(ALL) NOPASSWD: '' @ path;
          s1 = ignoring_failure orc
                 [''sh'', ''-c'',
                  ''printf %s '' @ [CHR 0x27] @ sudoers_line @ [CHR 0x27]
                  @ '' > /etc/sudoers.d/calamares-paru && chmod 440 /etc/sudoers.d/calamares-paru'']
                 SudoersFailed (manager_init s);
          s2 = ignoring_failure orc
                 [''sh'', ''-c'',
                  ''mkdir -p /var/cache/paru_cache && chown nobody:nobody /var/cache/paru_cache'']
                 CacheDirFailed s1
      in ignoring_failure orc [''sh'', ''-c'', ''chage -E -1 nobody''] ChageFailed s2)"

text \<open>
  The loop of \<^verbatim>\<open>run_paru\<close>. Its value is \<open>None\<close> when the loop ran \<^verbatim>\<open>return True\<close>, and
  \<open>Some last_exc\<close> when it ended by its condition or by \<^verbatim>\<open>break\<close>.

  With a timeout the call runs in a thread; \<^verbatim>\<open>th.is_alive()\<close> after the join is the
  \<open>late\<close> flag of the answer, and the lines of the answer are those that reached the
  callback by then. What a thread that is still running does later is not part of the
  model.
\<close>

function run_paru_loop ::
  "job \<Rightarrow> world \<Rightarrow> string list \<Rightarrow> bool \<Rightarrow> int \<Rightarrow> exn option \<Rightarrow> state \<Rightarrow> exn option option \<times> state" where
  "run_paru_loop job orc command callback attempts last_exc s =
     (if attempts \<le> cfg_num_retries job
      then
        (if cfg_timeout job = 0
         then (case target_env_process_output orc command
                       (line_callback ''paru: '' callback) s of
                 (Inr _, s') \<Rightarrow> (None, s')
               | (Inl e, s') \<Rightarrow>
                   if attempts + 1 \<le> cfg_num_retries job
                   then run_paru_loop job orc command callback (attempts + 1) (Some e) s'
                   else (Some (Some e), s'))
         else (case target_env_process_output orc command
                       (line_callback ''paru: '' callback) s of
                 (result, s1) \<Rightarrow>
                   if late (orc (calls s) command)
                   then (case target_env_process_output orc pkill_command NoCallback
                                (emit (Warning (ParuTimedOut (cfg_timeout job))) s1) of
                           (_, s2) \<Rightarrow>
                             if attempts + 1 \<le> cfg_num_retries job
                             then run_paru_loop job orc command callback (attempts + 1)
                                    (Some (CalledProcessError command 124)) s2
                             else (Some (Some (CalledProcessError command 124)), s2))
                   else (case result of
                           Inr _ \<Rightarrow> (None, s1)
                         | Inl e \<Rightarrow>
                             if attempts + 1 \<le> cfg_num_retries job
                             then run_paru_loop job orc command callback (attempts + 1) (Some e) s1
                             else (Some (Some e), s1))))
      else (Some last_exc, s))"
  by pat_completeness auto
termination
  by (relation "measure (\<lambda>(job, orc, command, callback, attempts, last_exc, s).
        nat (cfg_num_retries job + 1 - attempts))") auto

declare run_paru_loop.simps [simp del]

definition run_paru :: "job \<Rightarrow> world \<Rightarrow> string list \<Rightarrow> bool \<Rightarrow> state \<Rightarrow> bool \<times> state" where
  "run_paru job orc command callback s =
     (case run_paru_loop job orc command callback 0 None (emit SetBuildEnv s) of
        (None, s') \<Rightarrow> (True, s')
      | (Some None, s') \<Rightarrow> (False, emit (Warning (ParuCommandFailed command)) s')
      | (Some (Some e), s') \<Rightarrow>
          (False, emit (Debug (Stderr e)) (emit (Debug (Stdout e))
                    (emit (Warning (ParuCommandFailed (exn_cmd e))) s'))))"

definition paru_install :: "job \<Rightarrow> world \<Rightarrow> string list \<Rightarrow> bool \<Rightarrow> state \<Rightarrow> state" where
  "paru_install job orc pkgs from_local s =
     snd (run_paru job orc
            (sudo_paru @ [if from_local then ''-U'' else ''-S'', ''--noconfirm'', ''--noprogressbar'']
             @ (if cfg_needed_only job then [''--needed''] else [])
             @ (if cfg_disable_download_timeout job then [''--disable-download-timeout''] else [])
             @ pkgs)
            True (reset_progress s))"

definition paru_remove :: "job \<Rightarrow> world \<Rightarrow> string list \<Rightarrow> state \<Rightarrow> state" where
  "paru_remove job orc pkgs s =
     snd (run_paru job orc (sudo_paru @ [''-Rs'', ''--noconfirm''] @ pkgs) True (reset_progress s))"

definition paru_update_db :: "job \<Rightarrow> world \<Rightarrow> state \<Rightarrow> state" where
  "paru_update_db job orc s = snd (run_paru job orc (sudo_paru @ [''-Sy'']) False s)"

definition paru_update_system :: "job \<Rightarrow> world \<Rightarrow> state \<Rightarrow> state" where
  "paru_update_system job orc s =
     snd (run_paru job orc
            (sudo_paru @ [''-Su'', ''--noconfirm'']
             @ (if cfg_disable_download_timeout job then [''--disable-download-timeout''] else []))
            False s)"

text \<open>
  \<^verbatim>\<open>install_package\<close> and \<^verbatim>\<open>remove_package\<close>: the body under \<^verbatim>\<open>try\<close>, then
  \<^verbatim>\<open>except Exception\<close>, which logs and goes on.
\<close>

definition paru_install_package_body :: "job \<Rightarrow> world \<Rightarrow> entry \<Rightarrow> bool \<Rightarrow> unit comp" where
  "paru_install_package_body job orc packagedata from_local s =
     (case packagedata of
        Str name \<Rightarrow> (Inr (), paru_install job orc [name] from_local s)
      | Obj r \<Rightarrow>
          andthen (run_script orc (get_or_empty (pre_script (heap s r))))
            (\<lambda>_. andthen
               (\<lambda>s1. case package (heap s1 r) of
                        None \<Rightarrow> (Inl KeyError, s1)
                      | Some name \<Rightarrow> (Inr (), paru_install job orc [name] from_local s1))
               (\<lambda>_ s2. run_script orc (get_or_empty (post_script (heap s2 r))) s2)) s)"

definition paru_install_package :: "job \<Rightarrow> world \<Rightarrow> entry \<Rightarrow> bool \<Rightarrow> state \<Rightarrow> state" where
  "paru_install_package job orc packagedata from_local s =
     (case paru_install_package_body job orc packagedata from_local s of
        (Inl e, s') \<Rightarrow> emit (Warning (ParuInstallPackageFailed e)) s'
      | (Inr _, s') \<Rightarrow> s')"

definition paru_remove_package_body :: "job \<Rightarrow> world \<Rightarrow> entry \<Rightarrow> unit comp" where
  "paru_remove_package_body job orc packagedata s =
     (case packagedata of
        Str name \<Rightarrow> (Inr (), paru_remove job orc [name] s)
      | Obj r \<Rightarrow>
          andthen (run_script orc (get_or_empty (pre_script (heap s r))))
            (\<lambda>_. andthen
               (\<lambda>s1. case package (heap s1 r) of
                        None \<Rightarrow> (Inl KeyError, s1)
                      | Some name \<Rightarrow> (Inr (), paru_remove job orc [name] s1))
               (\<lambda>_ s2. run_script orc (get_or_empty (post_script (heap s2 r))) s2)) s)"

definition paru_remove_package :: "job \<Rightarrow> world \<Rightarrow> entry \<Rightarrow> state \<Rightarrow> state" where
  "paru_remove_package job orc packagedata s =
     (case paru_remove_package_body job orc packagedata s of
        (Inl e, s') \<Rightarrow> emit (Warning (ParuRemovePackageFailed e)) s'
      | (Inr _, s') \<Rightarrow> s')"

fun paru_operation_install :: "job \<Rightarrow> world \<Rightarrow> entry list \<Rightarrow> bool \<Rightarrow> state \<Rightarrow> state" where
  "paru_operation_install job orc [] from_local s = s"
| "paru_operation_install job orc (p # package_list) from_local s =
     paru_operation_install job orc package_list from_local
       (paru_install_package job orc p from_local s)"

definition paru_operation_try_install :: "job \<Rightarrow> world \<Rightarrow> entry list \<Rightarrow> state \<Rightarrow> state" where
  "paru_operation_try_install job orc package_list s =
     paru_operation_install job orc package_list False s"

fun paru_operation_remove :: "job \<Rightarrow> world \<Rightarrow> entry list \<Rightarrow> state \<Rightarrow> state" where
  "paru_operation_remove job orc [] s = s"
| "paru_operation_remove job orc (p # package_list) s =
     paru_operation_remove job orc package_list (paru_remove_package job orc p s)"

definition paru_operation_try_remove :: "job \<Rightarrow> world \<Rightarrow> entry list \<Rightarrow> state \<Rightarrow> state" where
  "paru_operation_try_remove job orc package_list s = paru_operation_remove job orc package_list s"

section \<open>paru/main.py: \<^verbatim>\<open>run_operations\<close> and \<^verbatim>\<open>run\<close>\<close>

definition paru_dispatch :: "job \<Rightarrow> world \<Rightarrow> string \<Rightarrow> pyval \<Rightarrow> entry list \<Rightarrow> state \<Rightarrow> state" where
  "paru_dispatch job orc key val package_list s =
     (if key = ''install''
      then paru_operation_install job orc package_list False (change_mode INSTALL s)
      else if key = ''try_install''
      then paru_operation_try_install job orc package_list (change_mode INSTALL s)
      else if key = ''remove''
      then paru_operation_remove job orc package_list (change_mode REMOVE s)
      else if key = ''try_remove''
      then paru_operation_try_remove job orc package_list (change_mode REMOVE s)
      else if key = ''localInstall''
      then paru_operation_install job orc package_list True (change_mode INSTALL s)
      else if key = ''source''
      then emit (Debug (PackageListFrom val)) s
      else emit (Warning (UnknownKey key)) s)"

definition paru_run_key :: "job \<Rightarrow> world \<Rightarrow> string \<times> pyval \<Rightarrow> state \<Rightarrow> state" where
  "paru_run_key job orc kv s =
     (case subst_locale (gs_locale job) (snd kv) s of
        (package_list, s1) \<Rightarrow>
          (let s3 = paru_dispatch job orc (fst kv) (snd kv) package_list
                      (s1\<lparr>group_packages := int (length package_list)\<rparr>)
           in progress_push
                (s3\<lparr>completed_packages :=
                      completed_packages s3 + int (length package_list)\<rparr>)))"

fun paru_run_keys :: "job \<Rightarrow> world \<Rightarrow> operation \<Rightarrow> state \<Rightarrow> state" where
  "paru_run_keys job orc [] s = s"
| "paru_run_keys job orc (kv # entry) s = paru_run_keys job orc entry (paru_run_key job orc kv s)"

text \<open>
  Nothing in the body raises in this model, so \<^verbatim>\<open>run_operations\<close> always returns; it keeps
  the type of a call that may raise, since \<^verbatim>\<open>run\<close> wraps it in \<^verbatim>\<open>try\<close>.
\<close>

definition paru_run_operations :: "job \<Rightarrow> world \<Rightarrow> operation \<Rightarrow> unit comp" where
  "paru_run_operations job orc entry s =
     (Inr (), change_mode NoMode ((paru_run_keys job orc entry s)\<lparr>group_packages := 0\<rparr>))"

fun paru_filter_loop :: "job \<Rightarrow> operation list \<Rightarrow> operation list \<Rightarrow> operation list" where
  "paru_filter_loop job [] filtered_ops = filtered_ops"
| "paru_filter_loop job (entry # operations) filtered_ops =
     (let src = lower (source_tag job entry) in
      if contains ''paru'' src
      then paru_filter_loop job operations (filtered_ops @ [entry])
      else paru_filter_loop job operations filtered_ops)"

text \<open>The operations that \<^verbatim>\<open>run\<close> goes on with: \<^verbatim>\<open>operations = filtered_ops\<close>.\<close>

definition paru_operations :: "job \<Rightarrow> operation list" where
  "paru_operations job = paru_filter_loop job (all_operations job) []"

text \<open>
  \<^verbatim>\<open>for op in operations: for packagelist in op.values():
       total_packages += len(subst_locale(packagelist))\<close>
\<close>

fun paru_count_values :: "job \<Rightarrow> operation \<Rightarrow> state \<Rightarrow> state" where
  "paru_count_values job [] s = s"
| "paru_count_values job (kv # op) s =
     (case subst_locale (gs_locale job) (snd kv) s of
        (package_list, s1) \<Rightarrow>
          paru_count_values job op
            (s1\<lparr>total_packages := total_packages s1 + int (length package_list)\<rparr>))"

fun paru_count_total :: "job \<Rightarrow> operation list \<Rightarrow> state \<Rightarrow> state" where
  "paru_count_total job [] s = s"
| "paru_count_total job (op # operations) s =
     paru_count_total job operations (paru_count_values job op s)"

fun paru_run_loop :: "job \<Rightarrow> world \<Rightarrow> operation list \<Rightarrow> state \<Rightarrow> state" where
  "paru_run_loop job orc [] s = s"
| "paru_run_loop job orc (entry # operations) s =
     (case paru_run_operations job orc entry
             (emit (Debug PrettyName) (s\<lparr>group_packages := 0\<rparr>)) of
        (Inl e, s') \<Rightarrow>
          paru_run_loop job orc operations (emit (Warning (ParuOperationFailed e)) s')
      | (Inr _, s') \<Rightarrow> paru_run_loop job orc operations s')"

definition paru_run :: "job \<Rightarrow> world \<Rightarrow> state \<Rightarrow> (exn + job_error option) \<times> state" where
  "paru_run job orc s0 =
     (let backend = (case cfg_backend job of None \<Rightarrow> ''paru'' | Some b \<Rightarrow> b) in
      if backend \<noteq> ''paru'' then (Inr (Some (BadBackend backend)), s0)
      else if cfg_skip_if_no_internet job \<and> \<not> gs_has_internet job
      then (Inr None, emit (Warning SkippedNoInternet) s0)
      else
        (let s1 = paru_init job orc s0;
             s2 = (if cfg_update_db job \<and> gs_has_internet job
                   then paru_update_db job orc s1 else s1);
             s3 = (if cfg_update_system job \<and> gs_has_internet job
                   then paru_update_system job orc s2 else s2);
             s4 = paru_count_total job (paru_operations job) (start_progress 0 s3)
         in if total_packages s4 = 0 then (Inr None, s4)
            else (Inr None,
                  emit (SetProgress Lit1)
                    ((paru_run_loop job orc (paru_operations job) s4)
                       \<lparr>mode_packages := NoMode\<rparr>))))"

section \<open>pacstrap/main.py\<close>

text \<open>
  What \<^verbatim>\<open>run\<close> reads: global storage, the job configuration (\<open>cfg_is_empty\<close> is
  \<^verbatim>\<open>not libcalamares.job.configuration\<close>; a missing key is \<open>None\<close>; a \<^verbatim>\<open>basePackages\<close> that is
  not a list is a \<open>VStr\<close>), the file system (\<^verbatim>\<open>os.path.exists\<close>, the file system type that
  \<^verbatim>\<open>findmnt\<close> prints, stripped, or the empty string when that call raises, whether a copy
  fails). The callback \<^verbatim>\<open>line_cb\<close> pushes \<^verbatim>\<open>setprogress(0)\<close> when more than half a second has
  passed since it last did: the clock is the \<open>redraw\<close> flag that the answer gives for the
  line.
\<close>

record pacstrap_job =
  gs_root_mount_point :: "string option"
  gs_bootloader :: "string option"
  host_has_internet :: bool
  host_online :: bool
  cfg_is_empty :: bool
  cfg_base_packages :: "pyval option"
  cfg_sync_db :: bool
  cfg_post_install_files :: "string list option"
  path_exists :: "string \<Rightarrow> bool"
  root_fstype :: string
  copy_fails :: "string \<Rightarrow> bool"

definition is_pacman_error :: "exn \<Rightarrow> bool" where
  "is_pacman_error e = (case e of PacmanError _ _ \<Rightarrow> True | _ \<Rightarrow> False)"

definition host_line_cb :: "string \<times> bool \<Rightarrow> state \<Rightarrow> state" where
  "host_line_cb lr s =
     (let s1 = emit (Debug (HostLine (strip (fst lr))))
                 (s\<lparr>custom_status_message := Some (strip (fst lr))\<rparr>)
      in if snd lr then emit (SetProgress Lit0) s1 else s1)"

fun with_redraw :: "string list \<Rightarrow> bool list \<Rightarrow> (string \<times> bool) list" where
  "with_redraw [] fs = []"
| "with_redraw (l # ls) [] = (l, False) # with_redraw ls []"
| "with_redraw (l # ls) (f # fs) = (l, f) # with_redraw ls fs"

text \<open>\<^verbatim>\<open>run_in_host(command, line_cb)\<close>: the callback gets the lines that are not blank.\<close>

definition run_in_host :: "world \<Rightarrow> string list \<Rightarrow> unit comp" where
  "run_in_host orc command s =
     (let r = orc (calls s) command;
          s' = fold host_line_cb
                 (with_redraw (filter (\<lambda>l. strip l \<noteq> []) (lines r)) (redraw r))
                 (emit (HostExec command) (s\<lparr>calls := Suc (calls s)\<rparr>))
      in if returncode r \<noteq> 0 then (Inl (PacmanError command (returncode r)), s')
         else (Inr (), s'))"

definition host_capture_lines :: "world \<Rightarrow> string list \<Rightarrow> string list comp" where
  "host_capture_lines orc command s =
     (let r = orc (calls s) command;
          s' = emit (HostExec command) (s\<lparr>calls := Suc (calls s)\<rparr>)
      in if returncode r \<noteq> 0 then (Inl (PacmanError command (returncode r)), s')
         else (Inr (filter (\<lambda>l. l \<noteq> [])
                      (map rstrip_newline (filter (\<lambda>l. l \<noteq> []) (lines r)))), s'))"

definition maybe_sync_db_host :: "pacstrap_job \<Rightarrow> world \<Rightarrow> unit comp" where
  "maybe_sync_db_host job orc s =
     (if \<not> cfg_sync_db job then (Inr (), emit (Debug SyncDisabled) s)
      else if \<not> (host_has_internet job \<or> host_online job)
      then (Inr (), emit (Warning NoInternetNoSync) s)
      else run_in_host orc [''pacman'', ''-Sy'', ''--noconfirm''] (emit (Debug Syncing) s))"

definition build_repo_index_host :: "world \<Rightarrow> (string set \<times> string set) comp" where
  "build_repo_index_host orc s =
     (case host_capture_lines orc [''pacman'', ''-Slq''] s of
        (Inl e, s1) \<Rightarrow> (Inl e, s1)
      | (Inr pkgs, s1) \<Rightarrow>
          (case host_capture_lines orc [''pacman'', ''-Sgq''] s1 of
             (Inl e, s2) \<Rightarrow> (Inl e, s2)
           | (Inr groups, s2) \<Rightarrow>
               (Inr (set pkgs, set groups),
                emit (Debug (RepoIndex (length (remdups pkgs)) (length (remdups groups)))) s2)))"

text \<open>The packages that lines 175 to 218 add for a bootloader and a root file system.\<close>

definition bootloader_packages :: "string \<Rightarrow> string \<Rightarrow> string list" where
  "bootloader_packages bootloader curr_filesystem =
     (if bootloader = ''grub'' then [''grub'', ''catos-grub-theme-dark'', ''os-prober'']
      else if bootloader = ''limine'' then [''limine'']
      else if bootloader = ''refind'' then [''refind'']
      else if bootloader = ''systemd-boot'' then [''catos-systemd-boot-config'']
      else [])
     @ (if curr_filesystem = ''zfs''
        then [''zfs-utils'', ''zfs-dkms'', ''libunwind'', ''linux-lts'', ''linux-lts-headers'']
        else if curr_filesystem = ''btrfs''
        then (if bootloader = ''limine'' then [''snapper'', ''btrfs-assistant'']
              else if bootloader = ''grub'' then [''snapper'', ''btrfs-assistant'', ''grub-btrfs'']
              else if bootloader = ''refind'' then [''snapper'', ''btrfs-assistant'']
              else [])
        else [])
     @ (if curr_filesystem \<noteq> ''zfs'' then [''linux'', ''linux-headers''] else [])"

definition add_bootloader_packages :: "pacstrap_job \<Rightarrow> entry list \<Rightarrow> state \<Rightarrow> entry list \<times> state" where
  "add_bootloader_packages job base_packages s =
     (if falsy_name (gs_bootloader job) then (base_packages, emit (Warning NoBootloader) s)
      else
        (let bootloader = the (gs_bootloader job);
             s1 = emit (HostExec [''findmnt'', ''-ln'', ''-o'', ''FSTYPE'',
                                  the (gs_root_mount_point job)])
                    (emit (Debug (CurrentBootloader bootloader)) s);
             s2 = (if root_fstype job = ''btrfs'' then emit (Debug RootOnBtrfs) s1 else s1)
         in (base_packages @ map Str (bootloader_packages bootloader (root_fstype job)), s2)))"

text \<open>The checks at the start of \<^verbatim>\<open>run\<close>: lines 147 to 171.\<close>

definition pacstrap_check :: "pacstrap_job \<Rightarrow> job_error + entry list" where
  "pacstrap_check job =
     (if falsy_name (gs_root_mount_point job) then Inl NoMountPoint
      else if \<not> path_exists job (the (gs_root_mount_point job))
      then Inl (BadMountPoint (the (gs_root_mount_point job)))
      else if cfg_is_empty job then Inl NoConfiguration
      else (case cfg_base_packages job of
              None \<Rightarrow> Inl PackageListMissing
            | Some (VStr _) \<Rightarrow> Inl BadConfiguration
            | Some (VList base_packages) \<Rightarrow> Inr base_packages))"

text \<open>
  \<^verbatim>\<open>run\<close> up to the end of the filter: lines 147 to 241. Its value is the error that the
  run returns there, or the filtered \<^verbatim>\<open>base_packages\<close>.
\<close>

definition pacstrap_prepare :: "pacstrap_job \<Rightarrow> world \<Rightarrow> state \<Rightarrow> (job_error + entry list) \<times> state" where
  "pacstrap_prepare job orc s0 =
     (case pacstrap_check job of
        Inl err \<Rightarrow> (Inl err, s0)
      | Inr base_packages0 \<Rightarrow>
          (case add_bootloader_packages job base_packages0 s0 of
             (base_packages, s1) \<Rightarrow>
               (let s2 = (case maybe_sync_db_host job orc s1 of
                            (Inl e, s') \<Rightarrow> emit (Warning (SyncFailed e)) s'
                          | (Inr _, s') \<Rightarrow> s')
                in case build_repo_index_host orc s2 of
                     (Inl e, s3) \<Rightarrow>
                       if is_pacman_error e
                       then (Inl RepositoryQueryError, emit (Warning (ExnText e)) s3)
                       else (Inl PkgcheckFailed, emit (Warning (PkgcheckFailedText e)) s3)
                   | (Inr (repo_pkgs, repo_groups), s3) \<Rightarrow>
                       (case filter_operation_list ''basePackages'' base_packages
                               repo_pkgs repo_groups s3 of
                          (kept, s4) \<Rightarrow> (Inr kept, s4)))))"

text \<open>The loop over \<^verbatim>\<open>postInstallFiles\<close>.\<close>

fun copy_files :: "pacstrap_job \<Rightarrow> string list \<Rightarrow> state \<Rightarrow> state" where
  "copy_files job [] s = s"
| "copy_files job (source_file # files_to_copy) s =
     copy_files job files_to_copy
       (if path_exists job source_file
        then (let s1 = emit (Debug (Copying source_file)) s in
              if copy_fails job source_file then emit (Warning (CopyFailed source_file)) s1
              else emit (CopyFile source_file) s1)
        else s)"

text \<open>
  \<^verbatim>\<open>run\<close> from the filtered list on: lines 243 to 276. A list with an entry that is not
  a string makes \<^verbatim>\<open>Popen\<close> raise, which \<^verbatim>\<open>except Exception\<close> turns into the same error.
\<close>

definition pacstrap_install :: "pacstrap_job \<Rightarrow> world \<Rightarrow> entry list \<Rightarrow> state \<Rightarrow> job_error option \<times> state" where
  "pacstrap_install job orc base_packages s =
     (if base_packages = []
      then (None, emit (SetProgress Lit1) (emit StoreOnline (emit (Warning AllFilteredOut) s)))
      else
        (case (if list_all is_str base_packages
               then run_in_host orc
                      ([''pacstrap'', the (gs_root_mount_point job)] @ strs base_packages) s
               else (Inl TypeError, s)) of
           (Inl e, s1) \<Rightarrow> (Some PacstrapFailed, s1)
         | (Inr _, s1) \<Rightarrow>
             (None,
              emit (SetProgress Lit1)
                (emit StoreOnline
                   (case cfg_post_install_files job of
                      None \<Rightarrow> s1
                    | Some files_to_copy \<Rightarrow> copy_files job files_to_copy s1)))))"

definition pacstrap_run :: "pacstrap_job \<Rightarrow> world \<Rightarrow> state \<Rightarrow> job_error option \<times> state" where
  "pacstrap_run job orc s0 =
     (case pacstrap_prepare job orc s0 of
        (Inl err, s1) \<Rightarrow> (Some err, s1)
      | (Inr base_packages, s1) \<Rightarrow> pacstrap_install job orc base_packages s1)"

section \<open>Notions that the statements use\<close>

text \<open>
  The module-level assignments (\<^verbatim>\<open>total_packages = 0\<close> and so on) over a given heap:
  the state in which \<^verbatim>\<open>run\<close> is first called.
\<close>

definition module_state :: "heap \<Rightarrow> state" where
  "module_state h =
     \<lparr>heap = h, trace = [], calls = 0, total_packages = 0, completed_packages = 0,
      group_packages = 0, mode_packages = NoMode, custom_status_message = None,
      in_package_changes = False, progress_fraction = Lit0\<rparr>"

definition no_objects :: heap where
  "no_objects = (\<lambda>r. \<lparr>package = None, pre_script = None, post_script = None\<rparr>)"

text \<open>A job with every setting at its default, and a world in which every command succeeds.\<close>

definition default_job :: job where
  "default_job =
     \<lparr>cfg_backend = None, cfg_skip_if_no_internet = False, cfg_update_db = False,
      cfg_update_system = False, cfg_operations = [], cfg_num_retries = 0,
      cfg_disable_download_timeout = False, cfg_needed_only = False, cfg_timeout = 0,
      gs_locale = None, gs_has_internet = True, gs_package_operations = None,
      str_of_list = (\<lambda>xs. []), pacman_path = None\<rparr>"

definition answer :: "int \<Rightarrow> string list \<Rightarrow> reply" where
  "answer rc ls = \<lparr>returncode = rc, late = False, lines = ls, redraw = []\<rparr>"

text \<open>The keys whose lists are executed, and the six keys that the dispatcher names.\<close>

definition executable_keys :: "string set" where
  "executable_keys = {''install'', ''try_install'', ''remove'', ''try_remove'', ''localInstall''}"

definition recognized_keys :: "string set" where
  "recognized_keys = insert ''source'' executable_keys"

text \<open>\<^verbatim>\<open>len(v)\<close>\<close>

definition len :: "pyval \<Rightarrow> nat" where
  "len v = (case v of VList xs \<Rightarrow> length xs | VStr t \<Rightarrow> length t)"

text \<open>The sum of the lengths of the executable lists of an operation.\<close>

definition executable_count :: "operation \<Rightarrow> int" where
  "executable_count op =
     sum_list (map (\<lambda>(k, v). if k \<in> executable_keys then int (len v) else 0) op)"

definition only_lists :: "operation \<Rightarrow> bool" where
  "only_lists op = list_all (\<lambda>(k, v). case v of VList _ \<Rightarrow> True | VStr _ \<Rightarrow> False) op"




text \<open>
  Two heaps give every object the same kind of name (missing, empty or not); and the
  lists of an operation hold no entry without a name, and under the keys that are
  checked against the repository no entry with an empty name.
\<close>

definition same_names :: "heap \<Rightarrow> heap \<Rightarrow> bool" where
  "same_names h h' =
     (\<forall>r. (package (h' r) = None) = (package (h r) = None)
          \<and> falsy_name (package (h' r)) = falsy_name (package (h r)))"

definition good_lists :: "heap \<Rightarrow> operation \<Rightarrow> bool" where
  "good_lists h op =
     (\<forall>(k, v)\<in>set op. \<forall>item\<in>set (iterate v).
        packagename_of h item \<noteq> None
        \<and> (k \<in> filter_keys \<longrightarrow> \<not> falsy_name (packagename_of h item)))"

text \<open>
  The progress values pushed so far; and two states with the same pushes, the same stored
  fraction and the same counters, so that nothing was pushed and no quotient was computed
  between them.
\<close>

definition is_push :: "event \<Rightarrow> bool" where
  "is_push e = (case e of SetProgress _ \<Rightarrow> True | _ \<Rightarrow> False)"

definition pushes :: "state \<Rightarrow> event list" where
  "pushes s = filter is_push (trace s)"

definition steady :: "state \<Rightarrow> state \<Rightarrow> bool" where
  "steady s s' =
     (pushes s' = pushes s \<and> progress_fraction s' = progress_fraction s
      \<and> total_packages s' = total_packages s \<and> completed_packages s' = completed_packages s)"

text \<open>
  Two states with the same counters; and what a call of a manager's executor keeps: the
  counters when the output goes to \<^verbatim>\<open>line_cb\<close> (\<^verbatim>\<open>callback=True\<close>), which pushes the stored
  fraction, and all of \<open>steady\<close> when it does not.
\<close>

definition counted :: "state \<Rightarrow> state \<Rightarrow> bool" where
  "counted s s' =
     (total_packages s' = total_packages s \<and> completed_packages s' = completed_packages s)"

definition settled :: "bool \<Rightarrow> state \<Rightarrow> state \<Rightarrow> bool" where
  "settled callback s s' = (if callback then counted s s' else steady s s')"

text \<open>The quotients pushed so far, and the commands run in the target so far.\<close>

definition is_ratio_push :: "event \<Rightarrow> bool" where
  "is_ratio_push e = (case e of SetProgress (Ratio _ _) \<Rightarrow> True | _ \<Rightarrow> False)"

definition ratio_pushes :: "state \<Rightarrow> event list" where
  "ratio_pushes s = filter is_ratio_push (trace s)"

definition is_exec :: "event \<Rightarrow> bool" where
  "is_exec e = (case e of Exec _ _ \<Rightarrow> True | _ \<Rightarrow> False)"

definition execs :: "state \<Rightarrow> event list" where
  "execs s = filter is_exec (trace s)"

text \<open>The operations of the examples.\<close>

definition ops_mixed :: "operation list" where
  "ops_mixed =
     [[(''install'', VList [Str ''a'', Str ''b'']), (''source'', VStr ''core'')],
      [(''localInstall'', VList [Str ''/tmp/x.pkg.tar'']), (''remove'', VList [Str ''zz''])]]"

text \<open>A world in which the first two commands fail and every later one succeeds.\<close>

definition flaky :: world where
  "flaky n command = answer (if n < 2 then 1 else 0) []"


definition ops_nameless :: "operation list" where
  "ops_nameless =
     [[(''install'', VList [Str '''', Str ''a'', Obj 5]),
       (''localInstall'', VList [Obj 5, Str ''f''])]]"

text \<open>
  A world whose repository has the packages \<^verbatim>\<open>a\<close> and \<^verbatim>\<open>b\<close> and no group, and in which every
  command succeeds; a job and a base system that ask for a package that is not there.
\<close>

definition repo_world :: world where
  "repo_world n command =
     (if command = [''pacman'', ''-Slq''] then answer 0 [''a'' @ [CHR 0x0A], ''b'' @ [CHR 0x0A]]
      else answer 0 [])"

definition job_missing :: job where
  "job_missing = default_job\<lparr>cfg_operations := [[(''install'', VList [Str ''zz''])]]\<rparr>"

definition pacstrap_job_missing :: pacstrap_job where
  "pacstrap_job_missing =
     \<lparr>gs_root_mount_point = Some ''/mnt'', gs_bootloader = None, host_has_internet = False,
      host_online = False, cfg_is_empty = False, cfg_base_packages = Some (VList [Str ''zz'']),
      cfg_sync_db = True, cfg_post_install_files = None, path_exists = (\<lambda>p. True),
      root_fstype = ''ext4'', copy_fails = (\<lambda>p. False)\<rparr>"

text \<open>
  A world in which every remove command fails; the operation of the spec's second
  scenario, as it is written and with the \<^verbatim>\<open>source\<close> tag that the paru module asks for; an
  operation with a \<^verbatim>\<open>source\<close> tag that the pacman module accepts.
\<close>

definition remove_fails :: world where
  "remove_fails n command = (if ''-Rs'' \<in> set command then answer 1 [] else answer 0 [])"

definition job_try_remove :: job where
  "job_try_remove = default_job\<lparr>cfg_operations := [[(''try_remove'', VList [Str ''x''])]]\<rparr>"

definition job_try_remove_paru :: job where
  "job_try_remove_paru =
     default_job\<lparr>cfg_operations :=
       [[(''try_remove'', VList [Str ''x'']), (''source'', VStr ''paru'')]]\<rparr>"

definition job_with_source :: job where
  "job_with_source =
     default_job\<lparr>cfg_operations :=
       [[(''install'', VList [Str ''a'']), (''source'', VStr ''core'')]]\<rparr>"

chapter \<open>Properties\<close>

section \<open>Strings and templates\<close>




lemma not_id_dollar [simp]: "\<not> is_id_start (CHR ''$'')" "\<not> is_id_char (CHR ''$'')"
  by (simp_all add: is_id_start_def is_id_char_def)


lemma convert_nonempty: "loc \<noteq> [] \<Longrightarrow> convert loc m \<noteq> []"
  by (cases m) (auto simp: convert_def)

lemma safe_substitute_empty_iff: "loc \<noteq> [] \<Longrightarrow> safe_substitute loc n = [] \<longleftrightarrow> n = []"
  by (cases n) (auto simp: convert_nonempty split: prod.splits)





section \<open>Evaluation\<close>

lemmas eval_defs = preprocess_operations_def subst_locale_def locale_or_en_def iterate_def
  packagename_of_def localize_def filter_keys_def falsy_name_def emit_def module_state_def
  any_nonempty_list_def no_objects_def

section \<open>The source tag decides which module runs an operation\<close>





section \<open>The total of preprocessing\<close>

lemma dict_set_fresh: "k \<notin> fst ` set d \<Longrightarrow> dict_set d k v = d @ [(k, v)]"
  by (induction d) auto

lemma executable_count_append:
  "executable_count (d @ [(k, v)]) =
     executable_count d + (if k \<in> executable_keys then int (len v) else 0)"
  by (simp add: executable_count_def)

lemma only_lists_append: "only_lists (d @ [(k, VList xs)]) = only_lists d"
  by (simp add: only_lists_def)

lemma preprocess_items_count:
  "distinct (map fst items) \<Longrightarrow> fst ` set items \<inter> fst ` set new_op = {} \<Longrightarrow>
   preprocess_items loc pk gr items new_op tot s = ((new_op', tot'), s') \<Longrightarrow>
   tot' - tot = executable_count new_op' - executable_count new_op
   \<and> (only_lists new_op \<longrightarrow> only_lists new_op')"
proof (induction items arbitrary: new_op tot s)
  case Nil
  then show ?case by simp
next
  case (Cons kv items)
  obtain key raw where kv: "kv = (key, raw)" by (cases kv)
  obtain localized s1 where sl: "subst_locale loc raw s = (localized, s1)"
    by (cases "subst_locale loc raw s")
  obtain filtered s2 where fl: "filter_operation_list key localized pk gr s1 = (filtered, s2)"
    by (cases "filter_operation_list key localized pk gr s1")
  from Cons.prems kv have fresh: "key \<notin> fst ` set new_op" and d: "distinct (map fst items)"
    and knew: "key \<notin> fst ` set items" and disj: "fst ` set items \<inter> fst ` set new_op = {}"
    by auto
  have disj': "fst ` set items \<inter> fst ` set (new_op @ [(key, v)]) = {}" for v
    using disj knew by auto
  show ?case
  proof (cases "key \<in> filter_keys")
    case True
    then have ex: "key \<in> executable_keys" by (auto simp: filter_keys_def executable_keys_def)
    from Cons.prems(3) kv sl fl True
    have "preprocess_items loc pk gr items (new_op @ [(key, VList filtered)])
            (tot + int (length filtered)) s2 = ((new_op', tot'), s')"
      by (simp add: dict_set_fresh[OF fresh])
    from Cons.IH[OF d disj' this] ex show ?thesis
      by (simp add: executable_count_append only_lists_append len_def)
  next
    case False
    show ?thesis
    proof (cases "key = ''localInstall''")
      case True
      then have ex: "key \<in> executable_keys" by (auto simp: executable_keys_def)
      from Cons.prems(3) kv sl False True
      have "preprocess_items loc pk gr items (new_op @ [(key, VList localized)])
              (tot + int (length localized)) s1 = ((new_op', tot'), s')"
        using fresh by (simp add: dict_set_fresh)
      from Cons.IH[OF d disj' this] ex show ?thesis
        by (simp add: executable_count_append only_lists_append len_def)
    next
      case F2: False
      with False have ex: "key \<notin> executable_keys"
        by (auto simp: executable_keys_def filter_keys_def)
      from Cons.prems(3) kv sl False F2
      have "preprocess_items loc pk gr items (new_op @ [(key, VList localized)]) tot s1
              = ((new_op', tot'), s')"
        using fresh by (simp add: dict_set_fresh)
      from Cons.IH[OF d disj' this] ex show ?thesis
        by (simp add: executable_count_append only_lists_append)
    qed
  qed
qed

lemma empty_lists_count:
  "only_lists op \<Longrightarrow> \<not> any_nonempty_list op \<Longrightarrow> executable_count op = 0"
  by (induction op)
     (auto simp: only_lists_def any_nonempty_list_def executable_count_def len_def
           split: pyval.splits)

lemma preprocess_loop_count:
  "\<forall>op \<in> set operations. distinct (map fst op) \<Longrightarrow>
   preprocess_loop loc pk gr operations new_ops tot s = ((new_ops', tot'), s') \<Longrightarrow>
   tot' - tot = sum_list (map executable_count new_ops') - sum_list (map executable_count new_ops)"
proof (induction operations arbitrary: new_ops tot s)
  case Nil
  then show ?case by simp
next
  case (Cons op operations)
  obtain new_op t1 s1 where pi: "preprocess_items loc pk gr op [] tot s = ((new_op, t1), s1)"
    by (cases "preprocess_items loc pk gr op [] tot s") auto
  from Cons.prems(1) have d: "distinct (map fst op)"
    and ds: "\<forall>op \<in> set operations. distinct (map fst op)"
    by auto
  from preprocess_items_count[OF d _ pi]
  have c: "t1 - tot = executable_count new_op" and ol: "only_lists new_op"
    by (auto simp: executable_count_def only_lists_def)
  from Cons.prems(2) pi
  have "preprocess_loop loc pk gr operations
          (if any_nonempty_list new_op then new_ops @ [new_op] else new_ops) t1 s1
        = ((new_ops', tot'), s')" by simp
  from Cons.IH[OF ds this] c empty_lists_count[OF ol] show ?case
    by (auto split: if_splits)
qed

lemma executable_count_without_source:
  "executable_count (filter (\<lambda>(k, v). k \<noteq> ''source'') op) = executable_count op"
  by (induction op) (auto simp: executable_count_def executable_keys_def)

text \<open>
  Claim C5. For operations that are dictionaries (no key twice), the total that
  \<^verbatim>\<open>preprocess_operations\<close> returns is the sum of the lengths of the lists under
  \<^verbatim>\<open>install\<close>, \<^verbatim>\<open>try_install\<close>, \<^verbatim>\<open>remove\<close>, \<^verbatim>\<open>try_remove\<close> and \<^verbatim>\<open>localInstall\<close> in the
  operations it returns; the lists under \<^verbatim>\<open>source\<close> add nothing to it.
\<close>

theorem total_count_is_executable_sum:
  assumes "\<forall>op \<in> set operations. distinct (map fst op)"
    and "preprocess_operations operations gs_loc repo_pkgs repo_groups s = ((new_ops, tot), s')"
  shows "tot = sum_list (map executable_count new_ops)
       \<and> tot = sum_list (map (\<lambda>op. executable_count (filter (\<lambda>(k, v). k \<noteq> ''source'') op)) new_ops)"
proof -
  from preprocess_loop_count[OF assms(1) assms(2)[unfolded preprocess_operations_def]]
  have "tot = sum_list (map executable_count new_ops)" by simp
  then show ?thesis by (simp add: executable_count_without_source)
qed

theorem total_count_witness:
  "list_all (\<lambda>op. distinct (map fst op)) ops_mixed
   \<and> fst (preprocess_operations ops_mixed None {''a''} {} (module_state no_objects))
       = ([[(''install'', VList [Str ''a'']), (''source'', VList [Str ''c'', Str ''o'', Str ''r'', Str ''e''])],
           [(''localInstall'', VList [Str ''/tmp/x.pkg.tar'']), (''remove'', VList [])]], 2)
   \<and> sum_list (map executable_count (fst (fst (preprocess_operations ops_mixed None {''a''} {} (module_state no_objects))))) = 2"
proof -
  have d: "\<forall>op \<in> set ops_mixed. distinct (map fst op)"
    by (simp add: ops_mixed_def)
  have ev: "fst (preprocess_operations ops_mixed None {''a''} {} (module_state no_objects))
       = ([[(''install'', VList [Str ''a'']), (''source'', VList [Str ''c'', Str ''o'', Str ''r'', Str ''e''])],
           [(''localInstall'', VList [Str ''/tmp/x.pkg.tar'']), (''remove'', VList [])]], 2)"
    by (simp add: ops_mixed_def eval_defs)
  then obtain s' where "preprocess_operations ops_mixed None {''a''} {} (module_state no_objects)
       = (([[(''install'', VList [Str ''a'']), (''source'', VList [Str ''c'', Str ''o'', Str ''r'', Str ''e''])],
           [(''localInstall'', VList [Str ''/tmp/x.pkg.tar'']), (''remove'', VList [])]], 2), s')"
    by (cases "preprocess_operations ops_mixed None {''a''} {} (module_state no_objects)") auto
  from total_count_is_executable_sum[OF d this] ev d show ?thesis
    by (simp add: list_all_iff)
qed

section \<open>Retries of the strict executor\<close>

lemma line_cb_frame [simp]:
  "calls (line_cb prefix line s) = calls s"
  "execs (line_cb prefix line s) = execs s"
  "heap (line_cb prefix line s) = heap s"
  "total_packages (line_cb prefix line s) = total_packages s"
  "completed_packages (line_cb prefix line s) = completed_packages s"
  by (simp_all add: line_cb_def emit_def execs_def is_exec_def)

lemma fold_line_cb_frame [simp]:
  "calls (fold (line_cb prefix) ls s) = calls s"
  "execs (fold (line_cb prefix) ls s) = execs s"
  "heap (fold (line_cb prefix) ls s) = heap s"
  "total_packages (fold (line_cb prefix) ls s) = total_packages s"
  "completed_packages (fold (line_cb prefix) ls s) = completed_packages s"
  by (induction ls arbitrary: s) simp_all

lemma target_env_process_output_calls:
  "calls (snd (target_env_process_output orc command cb s)) = Suc (calls s)"
  by (cases cb) (simp_all add: target_env_process_output_def Let_def emit_def)

lemma target_env_process_output_execs:
  "execs (snd (target_env_process_output orc command cb s)) = execs s @ [Exec command cb]"
proof (cases cb)
  case (LineCb prefix)
  have "execs (emit (Exec command cb) (s\<lparr>calls := Suc (calls s)\<rparr>)) = execs s @ [Exec command cb]"
    by (simp add: emit_def execs_def is_exec_def)
  with LineCb show ?thesis by (simp add: target_env_process_output_def Let_def)
qed (simp_all add: target_env_process_output_def Let_def emit_def execs_def is_exec_def)

lemma target_env_process_output_result:
  "fst (target_env_process_output orc command cb s) =
     (if returncode (orc (calls s) command) = 0 then Inr (lines (orc (calls s) command))
      else Inl (CalledProcessError command (returncode (orc (calls s) command))))"
  by (simp add: target_env_process_output_def Let_def)

lemma run_pacman_loop_succeeds:
  "\<forall>i<k. returncode (orc (calls s + i) command) \<noteq> 0 \<Longrightarrow>
   returncode (orc (calls s + k) command) = 0 \<Longrightarrow> c + int k \<le> r \<Longrightarrow>
   fst (run_pacman_loop r orc command cb c s) = Inr ()
   \<and> calls (snd (run_pacman_loop r orc command cb c s)) = calls s + Suc k
   \<and> execs (snd (run_pacman_loop r orc command cb c s))
       = execs s @ replicate (Suc k) (Exec command (line_callback ''pacman: '' cb))"
proof (induction k arbitrary: s c)
  case 0
  let ?t = "target_env_process_output orc command (line_callback ''pacman: '' cb) s"
  obtain r1 s1 where t: "?t = (r1, s1)" by (cases ?t)
  from target_env_process_output_result[of orc command "line_callback ''pacman: '' cb" s] t "0.prems"(2)
  have r1: "r1 = Inr (lines (orc (calls s) command))" by simp
  from target_env_process_output_calls[of orc command "line_callback ''pacman: '' cb" s]
       target_env_process_output_execs[of orc command "line_callback ''pacman: '' cb" s] t
  have "calls s1 = Suc (calls s)"
    "execs s1 = execs s @ [Exec command (line_callback ''pacman: '' cb)]" by simp_all
  with t r1 "0.prems"(3) show ?case
    by (subst (1 2 3) run_pacman_loop.simps) simp
next
  case (Suc k)
  let ?t = "target_env_process_output orc command (line_callback ''pacman: '' cb) s"
  obtain r1 s1 where t: "?t = (r1, s1)" by (cases ?t)
  from Suc.prems(1) have f0: "returncode (orc (calls s) command) \<noteq> 0" by force
  from target_env_process_output_result[of orc command "line_callback ''pacman: '' cb" s] t f0
  obtain e where r1: "r1 = Inl e" by simp
  from target_env_process_output_calls[of orc command "line_callback ''pacman: '' cb" s]
       target_env_process_output_execs[of orc command "line_callback ''pacman: '' cb" s] t
  have c1: "calls s1 = Suc (calls s)"
    and e1: "execs s1 = execs s @ [Exec command (line_callback ''pacman: '' cb)]" by simp_all
  have fs: "\<forall>i<k. returncode (orc (calls s1 + i) command) \<noteq> 0"
    using Suc.prems(1) c1 by auto
  have ok: "returncode (orc (calls s1 + k) command) = 0"
    using Suc.prems(2) c1 by simp
  have le: "(c + 1) + int k \<le> r" using Suc.prems(3) by simp
  have step: "run_pacman_loop r orc command cb c s = run_pacman_loop r orc command cb (c + 1) s1"
    using t r1 Suc.prems(3) by (subst run_pacman_loop.simps) simp
  from Suc.IH[OF fs ok le] c1 e1 show ?case
    unfolding step by (simp add: replicate_append_same)
qed

lemma run_pacman_loop_gives_up:
  "n = nat (r - c) \<Longrightarrow> c \<le> r \<Longrightarrow>
   \<forall>i\<le>n. returncode (orc (calls s + i) command) \<noteq> 0 \<Longrightarrow>
   fst (run_pacman_loop r orc command cb c s)
       = Inl (CalledProcessError command (returncode (orc (calls s + n) command)))
   \<and> calls (snd (run_pacman_loop r orc command cb c s)) = calls s + Suc n
   \<and> execs (snd (run_pacman_loop r orc command cb c s))
       = execs s @ replicate (Suc n) (Exec command (line_callback ''pacman: '' cb))"
proof (induction n arbitrary: s c)
  case 0
  then have cr: "c = r" by simp
  let ?t = "target_env_process_output orc command (line_callback ''pacman: '' cb) s"
  obtain r1 s1 where t: "?t = (r1, s1)" by (cases ?t)
  from "0.prems"(3) have f0: "returncode (orc (calls s) command) \<noteq> 0" by simp
  from target_env_process_output_result[of orc command "line_callback ''pacman: '' cb" s] t f0
  have r1: "r1 = Inl (CalledProcessError command (returncode (orc (calls s) command)))" by simp
  from target_env_process_output_calls[of orc command "line_callback ''pacman: '' cb" s]
       target_env_process_output_execs[of orc command "line_callback ''pacman: '' cb" s] t
  have "calls s1 = Suc (calls s)"
    "execs s1 = execs s @ [Exec command (line_callback ''pacman: '' cb)]" by simp_all
  with t r1 cr show ?case
    by (subst (1 2 3) run_pacman_loop.simps) simp
next
  case (Suc n)
  let ?t = "target_env_process_output orc command (line_callback ''pacman: '' cb) s"
  obtain r1 s1 where t: "?t = (r1, s1)" by (cases ?t)
  from Suc.prems(3) have f0: "returncode (orc (calls s) command) \<noteq> 0" by force
  from target_env_process_output_result[of orc command "line_callback ''pacman: '' cb" s] t f0
  obtain e where r1: "r1 = Inl e" by simp
  from target_env_process_output_calls[of orc command "line_callback ''pacman: '' cb" s]
       target_env_process_output_execs[of orc command "line_callback ''pacman: '' cb" s] t
  have c1: "calls s1 = Suc (calls s)"
    and e1: "execs s1 = execs s @ [Exec command (line_callback ''pacman: '' cb)]" by simp_all
  have fs: "\<forall>i\<le>n. returncode (orc (calls s1 + i) command) \<noteq> 0"
    using Suc.prems(3) c1 by auto
  from Suc.prems(1,2) have n: "n = nat (r - (c + 1))" and le: "c + 1 \<le> r" by auto
  have step: "run_pacman_loop r orc command cb c s = run_pacman_loop r orc command cb (c + 1) s1"
    using t r1 le Suc.prems(2) by (subst run_pacman_loop.simps) simp
  from Suc.IH[OF n le fs] c1 e1 show ?case
    unfolding step by (simp add: replicate_append_same)
qed

lemma run_pacman_negative_retries:
  "cfg_num_retries job < 0 \<Longrightarrow> run_pacman job orc command cb s = (Inr (), s)"
  by (simp add: run_pacman_def run_pacman_loop.simps)

text \<open>
  Claim C4. With a retry count \<open>r \<ge> 0\<close> and a command that fails \<open>k\<close> times and then
  succeeds: if \<open>k \<le> r\<close>, \<^verbatim>\<open>run_pacman\<close> returns after exactly \<open>k + 1\<close> invocations; if
  \<open>r < k\<close>, it raises \<^verbatim>\<open>CalledProcessError\<close> after exactly \<open>r + 1\<close> invocations. (A negative
  \<^verbatim>\<open>num_retries\<close> is not a count: the loop body never runs, see
  \<open>run_pacman_negative_retries\<close>.)
\<close>

theorem run_pacman_retry_count:
  assumes "0 \<le> cfg_num_retries job"
    and "\<forall>i<k. returncode (orc (calls s + i) command) \<noteq> 0"
    and "returncode (orc (calls s + k) command) = 0"
  shows "(int k \<le> cfg_num_retries job \<longrightarrow>
            fst (run_pacman job orc command cb s) = Inr ()
            \<and> calls (snd (run_pacman job orc command cb s)) = calls s + (k + 1)
            \<and> execs (snd (run_pacman job orc command cb s))
                = execs s @ replicate (k + 1) (Exec command (line_callback ''pacman: '' cb)))
       \<and> (cfg_num_retries job < int k \<longrightarrow>
            (\<exists>rc. rc \<noteq> 0
                  \<and> fst (run_pacman job orc command cb s) = Inl (CalledProcessError command rc))
            \<and> calls (snd (run_pacman job orc command cb s))
                = calls s + (nat (cfg_num_retries job) + 1)
            \<and> execs (snd (run_pacman job orc command cb s))
                = execs s @ replicate (nat (cfg_num_retries job) + 1)
                              (Exec command (line_callback ''pacman: '' cb)))"
proof (intro conjI impI)
  assume "int k \<le> cfg_num_retries job"
  then have le: "0 + int k \<le> cfg_num_retries job" by simp
  note a = run_pacman_loop_succeeds[of k orc s command 0 "cfg_num_retries job" cb,
      OF assms(2,3) le]
  from a show "fst (run_pacman job orc command cb s) = Inr ()"
    by (simp add: run_pacman_def)
  from a show "calls (snd (run_pacman job orc command cb s)) = calls s + (k + 1)"
    by (simp add: run_pacman_def)
  from a show "execs (snd (run_pacman job orc command cb s))
                = execs s @ replicate (k + 1) (Exec command (line_callback ''pacman: '' cb))"
    by (simp add: run_pacman_def)
next
  assume lt: "cfg_num_retries job < int k"
  let ?n = "nat (cfg_num_retries job)"
  have n: "?n = nat (cfg_num_retries job - 0)" by simp
  from lt assms(1) have "?n < k" by linarith
  with assms(2) have fs: "\<forall>i\<le>?n. returncode (orc (calls s + i) command) \<noteq> 0" by auto
  note b = run_pacman_loop_gives_up[of ?n "cfg_num_retries job" 0 orc s command cb,
      OF n assms(1) fs]
  from b fs show "\<exists>rc. rc \<noteq> 0
                  \<and> fst (run_pacman job orc command cb s) = Inl (CalledProcessError command rc)"
    by (auto simp: run_pacman_def)
  from b show "calls (snd (run_pacman job orc command cb s)) = calls s + (?n + 1)"
    by (simp add: run_pacman_def)
  from b show "execs (snd (run_pacman job orc command cb s))
                = execs s @ replicate (?n + 1) (Exec command (line_callback ''pacman: '' cb))"
    by (simp add: run_pacman_def)
qed

theorem run_pacman_retry_count_witness:
  "fst (run_pacman (default_job\<lparr>cfg_num_retries := 3\<rparr>) flaky [''pacman'', ''-Sy''] False
          (module_state no_objects)) = Inr ()
   \<and> calls (snd (run_pacman (default_job\<lparr>cfg_num_retries := 3\<rparr>) flaky [''pacman'', ''-Sy'']
          False (module_state no_objects))) = 3
   \<and> (\<exists>rc. rc \<noteq> 0
        \<and> fst (run_pacman (default_job\<lparr>cfg_num_retries := 1\<rparr>) flaky [''pacman'', ''-Sy'']
                  False (module_state no_objects))
            = Inl (CalledProcessError [''pacman'', ''-Sy''] rc))
   \<and> calls (snd (run_pacman (default_job\<lparr>cfg_num_retries := 1\<rparr>) flaky [''pacman'', ''-Sy'']
          False (module_state no_objects))) = 2"
proof -
  have a: "\<forall>i<2. returncode (flaky (calls (module_state no_objects) + i) [''pacman'', ''-Sy'']) \<noteq> 0"
    by (simp add: flaky_def answer_def module_state_def)
  have b: "returncode (flaky (calls (module_state no_objects) + 2) [''pacman'', ''-Sy'']) = 0"
    by (simp add: flaky_def answer_def module_state_def)
  have r3: "0 \<le> cfg_num_retries (default_job\<lparr>cfg_num_retries := 3\<rparr>)" by simp
  have r1: "0 \<le> cfg_num_retries (default_job\<lparr>cfg_num_retries := 1\<rparr>)" by simp
  from run_pacman_retry_count[where job = "default_job\<lparr>cfg_num_retries := 3\<rparr>" and k = 2
         and orc = flaky and s = "module_state no_objects" and command = "[''pacman'', ''-Sy'']"
         and cb = False, OF r3 a b]
       run_pacman_retry_count[where job = "default_job\<lparr>cfg_num_retries := 1\<rparr>" and k = 2
         and orc = flaky and s = "module_state no_objects" and command = "[''pacman'', ''-Sy'']"
         and cb = False, OF r1 a b]
  show ?thesis by (simp add: module_state_def)
qed

section \<open>What \<^verbatim>\<open>subst_locale\<close> changes\<close>


lemma subst_locale_loop_step:
  "subst_locale_loop loc (pd # plist) h = (ret, h') \<Longrightarrow>
   (subst_locale_loop loc plist h = (ret, h'))
   \<or> (\<exists>n ret1. pd = Str n \<and> ret = Str (the (localize loc n)) # ret1 \<and> localize loc n \<noteq> None
         \<and> subst_locale_loop loc plist h = (ret1, h'))
   \<or> (\<exists>q n m ret1. pd = Obj q \<and> package (h q) = Some n \<and> localize loc n = Some m
         \<and> ret = Obj q # ret1
         \<and> subst_locale_loop loc plist (h(q := (h q)\<lparr>package := Some m\<rparr>)) = (ret1, h'))"
  by (cases pd) (auto simp: packagename_of_def split: option.splits prod.splits)

lemma subst_locale_loop_fields:
  "subst_locale_loop loc plist h = (ret, h') \<Longrightarrow>
   pre_script (h' r) = pre_script (h r) \<and> post_script (h' r) = post_script (h r)
   \<and> (package (h' r) = None \<longleftrightarrow> package (h r) = None)"
proof (induction plist arbitrary: h ret)
  case Nil
  then show ?case by simp
next
  case (Cons pd plist)
  from subst_locale_loop_step[OF Cons.prems]
  consider (skip) "subst_locale_loop loc plist h = (ret, h')"
    | (str) ret1 where "subst_locale_loop loc plist h = (ret1, h')"
    | (obj) q m ret1 where
        "subst_locale_loop loc plist (h(q := (h q)\<lparr>package := Some m\<rparr>)) = (ret1, h')"
        "package (h q) \<noteq> None"
    by auto
  then show ?case
  proof cases
    case skip
    then show ?thesis by (rule Cons.IH)
  next
    case str
    then show ?thesis by (rule Cons.IH)
  next
    case obj
    from Cons.IH[OF obj(1)] obj(2) show ?thesis
      by (cases "r = q") auto
  qed
qed









lemma heap_module_state [simp]: "heap (module_state h) = h"
  by (simp add: module_state_def)




section \<open>Placeholders and the locale\<close>












section \<open>Entries without a name\<close>

lemma same_names_refl: "same_names h h"
  by (simp add: same_names_def)

lemma same_names_trans: "same_names h h1 \<Longrightarrow> same_names h1 h2 \<Longrightarrow> same_names h h2"
  by (simp add: same_names_def)

lemma same_names_packagename:
  "same_names h h' \<Longrightarrow>
   (packagename_of h' item = None) = (packagename_of h item = None)
   \<and> falsy_name (packagename_of h' item) = falsy_name (packagename_of h item)"
  by (cases item) (simp_all add: same_names_def packagename_of_def)

lemma good_lists_same: "same_names h h' \<Longrightarrow> good_lists h op \<Longrightarrow> good_lists h' op"
  unfolding good_lists_def using same_names_packagename by blast

lemma localize_empty_iff: "loc \<noteq> [] \<Longrightarrow> localize loc n = Some m \<Longrightarrow> (m = []) = (n = [])"
  by (auto simp: localize_def safe_substitute_empty_iff split: if_splits)

lemma subst_locale_loop_falsy:
  "loc \<noteq> [] \<Longrightarrow> subst_locale_loop loc plist h = (ret, h') \<Longrightarrow>
   falsy_name (package (h' r)) = falsy_name (package (h r))"
proof (induction plist arbitrary: h ret)
  case Nil
  then show ?case by simp
next
  case (Cons pd plist)
  from subst_locale_loop_step[OF Cons.prems(2)]
  consider (skip) "subst_locale_loop loc plist h = (ret, h')"
    | (str) ret1 where "subst_locale_loop loc plist h = (ret1, h')"
    | (obj) q n0 m ret1 where
        "subst_locale_loop loc plist (h(q := (h q)\<lparr>package := Some m\<rparr>)) = (ret1, h')"
        "package (h q) = Some n0" "localize loc n0 = Some m"
    by auto
  then show ?case
  proof cases
    case skip
    from Cons.IH[OF Cons.prems(1) skip] show ?thesis .
  next
    case str
    from Cons.IH[OF Cons.prems(1) str] show ?thesis .
  next
    case obj
    from Cons.IH[OF Cons.prems(1) obj(1)] obj(2) localize_empty_iff[OF Cons.prems(1) obj(3)]
    show ?thesis
      by (cases "r = q") (simp_all add: falsy_name_def)
  qed
qed

lemma locale_or_en_nonempty: "locale_or_en v \<noteq> []"
  by (simp add: locale_or_en_def split: option.splits)

lemma subst_locale_loop_named:
  "subst_locale_loop loc plist h = (ret, h') \<Longrightarrow> \<forall>e\<in>set ret. packagename_of h' e \<noteq> None"
proof (induction plist arbitrary: h ret)
  case Nil
  then show ?case by simp
next
  case (Cons pd plist)
  from subst_locale_loop_step[OF Cons.prems]
  consider (skip) "subst_locale_loop loc plist h = (ret, h')"
    | (str) n ret1 where "ret = Str (the (localize loc n)) # ret1"
        "subst_locale_loop loc plist h = (ret1, h')"
    | (obj) q m ret1 where "ret = Obj q # ret1"
        "subst_locale_loop loc plist (h(q := (h q)\<lparr>package := Some m\<rparr>)) = (ret1, h')"
    by auto
  then show ?case
  proof cases
    case skip
    then show ?thesis by (rule Cons.IH)
  next
    case str
    with Cons.IH[OF str(2)] show ?thesis by (simp add: packagename_of_def)
  next
    case obj
    from subst_locale_loop_fields[OF obj(2), of q] have "package (h' q) \<noteq> None" by simp
    with Cons.IH[OF obj(2)] obj(1) show ?thesis by (simp add: packagename_of_def)
  qed
qed

lemma subst_locale_names:
  assumes "subst_locale gs_loc plist s = (localized, s1)"
  shows "same_names (heap s) (heap s1)"
    and "\<forall>e\<in>set localized. packagename_of (heap s1) e \<noteq> None"
proof -
  obtain h' where l: "subst_locale_loop (locale_or_en gs_loc) (iterate plist) (heap s) = (localized, h')"
    and s1: "heap s1 = h'"
    using assms by (auto simp: subst_locale_def split: prod.splits)
  show "same_names (heap s) (heap s1)"
    using subst_locale_loop_fields[OF l] subst_locale_loop_falsy[OF locale_or_en_nonempty l] s1
    by (simp add: same_names_def)
  show "\<forall>e\<in>set localized. packagename_of (heap s1) e \<noteq> None"
    using subst_locale_loop_named[OF l] s1 by simp
qed

lemma heap_emit [simp]: "heap (emit e s) = heap s"
  by (simp add: emit_def)

lemma filter_operation_list_kept:
  "filter_operation_list key items pk gr s = (kept, s') \<Longrightarrow>
   heap s' = heap s \<and> set kept \<subseteq> set items
   \<and> (\<forall>item\<in>set kept. \<not> falsy_name (packagename_of (heap s) item))"
proof (induction items arbitrary: s kept)
  case Nil
  then show ?case by simp
next
  case (Cons item items)
  show ?case
  proof (cases "falsy_name (packagename_of (heap s) item)")
    case True
    with Cons.prems
    have "filter_operation_list key items pk gr (emit (Warning (EmptyEntry key item)) s) = (kept, s')"
      by simp
    from Cons.IH[OF this] show ?thesis by auto
  next
    case False
    show ?thesis
    proof (cases "the (packagename_of (heap s) item) \<in> pk \<or> the (packagename_of (heap s) item) \<in> gr")
      case True
      with False Cons.prems obtain kept1 where
        k: "filter_operation_list key items pk gr s = (kept1, s')" and "kept = item # kept1"
        by (auto simp: Let_def split: prod.splits)
      with Cons.IH[OF k] False show ?thesis by auto
    next
      case F: False
      with False Cons.prems
      have "filter_operation_list key items pk gr
              (emit (Debug (DroppedEntry key item))
                 (emit (Warning (DroppingMissing key (the (packagename_of (heap s) item)))) s))
            = (kept, s')"
        by (simp add: Let_def)
      from Cons.IH[OF this] show ?thesis by auto
    qed
  qed
qed

lemma set_dict_set: "set (dict_set d k v) \<subseteq> insert (k, v) (set d)"
  by (induction d) (auto split: if_splits)

lemma falsy_None: "\<not> falsy_name x \<Longrightarrow> x \<noteq> None"
  by (cases x) (auto simp: falsy_name_def)

lemma good_lists_dict_set:
  assumes "good_lists h d"
    and "\<forall>item\<in>set xs. packagename_of h item \<noteq> None
           \<and> (k \<in> filter_keys \<longrightarrow> \<not> falsy_name (packagename_of h item))"
  shows "good_lists h (dict_set d k (VList xs))"
  unfolding good_lists_def
proof (intro ballI, clarify)
  fix k' v item
  assume m: "(k', v) \<in> set (dict_set d k (VList xs))" and i: "item \<in> set (iterate v)"
  from m set_dict_set[of d k "VList xs"]
  consider "(k', v) = (k, VList xs)" | "(k', v) \<in> set d" by blast
  then show "packagename_of h item \<noteq> None
             \<and> (k' \<in> filter_keys \<longrightarrow> \<not> falsy_name (packagename_of h item))"
  proof cases
    case 1
    with i assms(2) show ?thesis by (simp add: iterate_def)
  next
    case 2
    with i assms(1) show ?thesis unfolding good_lists_def by blast
  qed
qed

lemma preprocess_items_good:
  "good_lists (heap s) new_op \<Longrightarrow>
   preprocess_items loc pk gr items new_op tot s = ((new_op', tot'), s') \<Longrightarrow>
   good_lists (heap s') new_op' \<and> same_names (heap s) (heap s')"
proof (induction items arbitrary: new_op tot s)
  case Nil
  then show ?case by (simp add: same_names_refl)
next
  case (Cons kv items)
  obtain key raw where kv: "kv = (key, raw)" by (cases kv)
  obtain localized s1 where sl: "subst_locale loc raw s = (localized, s1)"
    by (cases "subst_locale loc raw s")
  obtain filtered s2 where fl: "filter_operation_list key localized pk gr s1 = (filtered, s2)"
    by (cases "filter_operation_list key localized pk gr s1")
  note sn = subst_locale_names[OF sl]
  have g1: "good_lists (heap s1) new_op" using good_lists_same[OF sn(1) Cons.prems(1)] .
  show ?case
  proof (cases "key \<in> filter_keys")
    case True
    from filter_operation_list_kept[OF fl]
    have h2: "heap s2 = heap s1"
      and fk: "\<forall>item\<in>set filtered. \<not> falsy_name (packagename_of (heap s1) item)"
      by auto
    have "good_lists (heap s2) (dict_set new_op key (VList filtered))"
      unfolding h2 using fk by (intro good_lists_dict_set[OF g1]) (auto dest: falsy_None)
    moreover from Cons.prems(2) kv sl fl True
    have "preprocess_items loc pk gr items (dict_set new_op key (VList filtered))
            (tot + int (length filtered)) s2 = ((new_op', tot'), s')"
      by simp
    ultimately have "good_lists (heap s') new_op' \<and> same_names (heap s2) (heap s')"
      by (rule Cons.IH)
    with sn(1) h2 show ?thesis by (auto intro: same_names_trans)
  next
    case False
    have g: "good_lists (heap s1) (dict_set new_op key (VList localized))"
      using sn(2) False by (intro good_lists_dict_set[OF g1]) auto
    from Cons.prems(2) kv sl False
    have "\<exists>t. preprocess_items loc pk gr items (dict_set new_op key (VList localized)) t s1
            = ((new_op', tot'), s')"
      by (auto split: if_splits)
    then obtain t where "preprocess_items loc pk gr items (dict_set new_op key (VList localized)) t s1
            = ((new_op', tot'), s')" ..
    from Cons.IH[OF g this] sn(1) show ?thesis by (auto intro: same_names_trans)
  qed
qed

lemma preprocess_loop_good:
  "\<forall>op\<in>set new_ops. good_lists (heap s) op \<Longrightarrow>
   preprocess_loop loc pk gr operations new_ops tot s = ((new_ops', tot'), s') \<Longrightarrow>
   \<forall>op\<in>set new_ops'. good_lists (heap s') op"
proof (induction operations arbitrary: new_ops tot s)
  case Nil
  then show ?case by simp
next
  case (Cons op operations)
  obtain new_op t1 s1 where pi: "preprocess_items loc pk gr op [] tot s = ((new_op, t1), s1)"
    by (cases "preprocess_items loc pk gr op [] tot s") auto
  have "good_lists (heap s) []" by (simp add: good_lists_def)
  from preprocess_items_good[OF this pi]
  have g: "good_lists (heap s1) new_op" and sn: "same_names (heap s) (heap s1)" by auto
  have all: "\<forall>op\<in>set (if any_nonempty_list new_op then new_ops @ [new_op] else new_ops).
               good_lists (heap s1) op"
    using g Cons.prems(1) good_lists_same[OF sn] by auto
  from Cons.prems(2) pi
  have "preprocess_loop loc pk gr operations
          (if any_nonempty_list new_op then new_ops @ [new_op] else new_ops) t1 s1
        = ((new_ops', tot'), s')" by simp
  from Cons.IH[OF all this] show ?case .
qed

text \<open>
  Claim C8, as amended. In the operations that preprocessing returns, no list holds an
  entry whose \<^verbatim>\<open>package\<close> is missing, and no list under \<^verbatim>\<open>install\<close>, \<^verbatim>\<open>try_install\<close>,
  \<^verbatim>\<open>remove\<close> or \<^verbatim>\<open>try_remove\<close> holds an entry whose name is the empty string; the total is
  the sum of the lengths of the executable lists of the output, so an entry that was
  dropped adds nothing. (A list under \<^verbatim>\<open>localInstall\<close> does not go through
  \<^verbatim>\<open>filter_operation_list\<close>: there an empty name stays and is counted.)
\<close>

theorem preprocess_drops_nameless:
  assumes "preprocess_operations operations gs_loc repo_pkgs repo_groups s = ((new_ops, tot), s')"
    and "op \<in> set new_ops" and "(key, VList xs) \<in> set op" and "item \<in> set xs"
  shows "packagename_of (heap s') item \<noteq> None
       \<and> (key \<in> filter_keys \<longrightarrow> packagename_of (heap s') item \<noteq> Some [])
       \<and> ((\<forall>op\<in>set operations. distinct (map fst op)) \<longrightarrow>
            tot = sum_list (map executable_count new_ops))"
proof -
  have "\<forall>op\<in>set []. good_lists (heap s) op" by simp
  from preprocess_loop_good[OF this assms(1)[unfolded preprocess_operations_def]] assms(2)
  have "good_lists (heap s') op" by blast
  with assms(3,4)
  have a: "packagename_of (heap s') item \<noteq> None
       \<and> (key \<in> filter_keys \<longrightarrow> \<not> falsy_name (packagename_of (heap s') item))"
    unfolding good_lists_def by (auto simp: iterate_def)
  have b: "(\<forall>op\<in>set operations. distinct (map fst op)) \<longrightarrow>
            tot = sum_list (map executable_count new_ops)"
    using preprocess_loop_count[OF _ assms(1)[unfolded preprocess_operations_def]] by simp
  from a b show ?thesis by (auto simp: falsy_name_def)
qed

theorem preprocess_drops_nameless_witness:
  "fst (preprocess_operations ops_nameless None {''a''} {} (module_state no_objects))
     = ([[(''install'', VList [Str ''a'']), (''localInstall'', VList [Str ''f''])]], 2)
   \<and> packagename_of (heap (snd (preprocess_operations ops_nameless None {''a''} {}
          (module_state no_objects)))) (Str ''a'') \<noteq> Some []
   \<and> sum_list (map executable_count
         [[(''install'', VList [Str ''a'']), (''localInstall'', VList [Str ''f''])]]) = 2"
proof -
  let ?r = "preprocess_operations ops_nameless None {''a''} {} (module_state no_objects)"
  let ?out = "[[(''install'', VList [Str ''a'']), (''localInstall'', VList [Str ''f''])]]"
  have ev: "fst ?r = (?out, 2)"
    by (simp add: ops_nameless_def eval_defs)
  then have e: "?r = ((?out, 2), snd ?r)" by (metis prod.collapse)
  have d: "\<forall>op\<in>set ops_nameless. distinct (map fst op)" by (simp add: ops_nameless_def)
  have k: "''install'' \<in> filter_keys" by (simp add: filter_keys_def)
  from preprocess_drops_nameless[OF e, of "hd ?out" "''install''" "[Str ''a'']" "Str ''a''"] d k ev
  show ?thesis by simp
qed

text \<open>
  Claim C8 as stated fails for \<^verbatim>\<open>localInstall\<close>: an entry with the empty name is in the
  output and the total counts it.
\<close>

theorem empty_name_kept_in_local_install:
  "fst (preprocess_operations [[(''localInstall'', VList [Str ''''])]] None {} {}
          (module_state no_objects))
     = ([[(''localInstall'', VList [Str ''''])]], 1)
   \<and> packagename_of (heap (snd (preprocess_operations [[(''localInstall'', VList [Str ''''])]]
          None {} {} (module_state no_objects)))) (Str '''') = Some ''''"
  by (simp add: eval_defs)

section \<open>Nothing is pushed before the dispatch\<close>

lemma steady_refl [simp]: "steady s s"
  by (simp add: steady_def)

lemma steady_trans: "steady s s1 \<Longrightarrow> steady s1 s2 \<Longrightarrow> steady s s2"
  by (simp add: steady_def)

lemma steady_emit: "\<not> is_push e \<Longrightarrow> steady s (emit e s)"
  by (simp add: steady_def pushes_def emit_def)

lemma steady_emit_after: "\<not> is_push e \<Longrightarrow> steady s s' \<Longrightarrow> steady s (emit e s')"
  by (simp add: steady_def pushes_def emit_def)

lemma steady_heap: "steady s (s\<lparr>heap := h\<rparr>)"
  by (simp add: steady_def pushes_def)

lemma not_push [simp]:
  "\<not> is_push (Exec c cb)" "\<not> is_push (CheckCall c)" "\<not> is_push (HostExec c)"
  "\<not> is_push (Warning m)" "\<not> is_push (Debug m)" "\<not> is_push SetBuildEnv"
  "\<not> is_push StoreOnline" "\<not> is_push (CopyFile f)" "is_push (SetProgress p)"
  by (simp_all add: is_push_def)

lemma settled_refl [simp]: "settled callback s s"
  by (simp add: settled_def counted_def)

lemma settled_trans: "settled callback s s1 \<Longrightarrow> settled callback s1 s2 \<Longrightarrow> settled callback s s2"
  by (simp add: settled_def counted_def steady_def split: if_splits)

lemma settled_steady: "steady s s' \<Longrightarrow> settled callback s s'"
  by (simp add: settled_def counted_def steady_def)

lemma settled_emit_after:
  "\<not> is_push e \<Longrightarrow> settled callback s s' \<Longrightarrow> settled callback s (emit e s')"
  by (simp add: settled_def counted_def steady_def pushes_def emit_def split: if_splits)

lemma steady_target_env_process_output:
  "steady s (snd (target_env_process_output orc command NoCallback s))"
  "steady s (snd (target_env_process_output orc command Capture s))"
  by (simp_all add: target_env_process_output_def Let_def steady_def pushes_def emit_def)

lemma settled_target_env_process_output:
  "settled callback s
     (snd (target_env_process_output orc command (line_callback prefix callback) s))"
proof (cases callback)
  case True
  then show ?thesis
    by (simp add: settled_def counted_def line_callback_def target_env_process_output_def
        Let_def) (simp add: emit_def)
next
  case False
  with steady_target_env_process_output(1)[of s orc command] show ?thesis
    by (simp add: settled_def line_callback_def)
qed

lemma steady_check_target_env_call:
  "steady s (snd (check_target_env_call orc command s))"
  by (simp add: check_target_env_call_def Let_def steady_def pushes_def emit_def)

lemma steady_run_script: "steady s (snd (run_script orc script s))"
  by (simp add: run_script_def steady_check_target_env_call)

lemma settled_run_pacman_loop:
  "settled callback s (snd (run_pacman_loop retries orc command callback pacman_count s))"
proof (induction retries orc command callback pacman_count s rule: run_pacman_loop.induct)
  case (1 retries orc command callback pacman_count s)
  let ?cb = "line_callback ''pacman: '' callback"
  show ?case
  proof (cases "pacman_count \<le> retries")
    case False
    then show ?thesis by (subst run_pacman_loop.simps) simp
  next
    case True
    obtain r s' where t: "target_env_process_output orc command ?cb s = (r, s')"
      by (cases "target_env_process_output orc command ?cb s")
    from settled_target_env_process_output[of callback s orc command "''pacman: ''"] t
    have st: "settled callback s s'" by simp
    show ?thesis
    proof (cases r)
      case (Inr x)
      with True t st show ?thesis by (subst run_pacman_loop.simps) simp
    next
      case (Inl e)
      show ?thesis
      proof (cases "pacman_count + 1 \<le> retries")
        case False
        with True t st Inl show ?thesis by (subst run_pacman_loop.simps) simp
      next
        case T2: True
        from "1.IH"[OF True t[symmetric] Inl T2]
        have "settled callback s'
                (snd (run_pacman_loop retries orc command callback (pacman_count + 1) s'))" .
        with st True t Inl T2 show ?thesis
          by (subst run_pacman_loop.simps) (auto intro: settled_trans)
      qed
    qed
  qed
qed

lemma steady_run_pacman: "steady s (snd (run_pacman job orc command False s))"
  using settled_run_pacman_loop[of False s "cfg_num_retries job" orc command 0]
  by (simp add: run_pacman_def settled_def)

lemma steady_pacman_update:
  "steady s (snd (pacman_update_db job orc s))"
  "steady s (snd (pacman_update_system job orc s))"
  by (simp_all add: pacman_update_db_def pacman_update_system_def steady_run_pacman)

lemma steady_log_exn: "steady s s' \<Longrightarrow> steady s (log_exn e s')"
  by (simp add: log_exn_def steady_emit_after)

lemma steady_except:
  "steady s (snd r) \<Longrightarrow> steady s (snd (except_called_process_error title r))"
  by (cases r) (auto simp: except_called_process_error_def steady_log_exn split: sum.splits)

lemma steady_capture_lines: "steady s (snd (target_env_capture_lines orc command s))"
  using steady_target_env_process_output(2)[of s orc command]
  by (auto simp: target_env_capture_lines_def split: prod.splits sum.splits)

lemma steady_build_repo_index: "steady s (snd (build_repo_index orc s))"
proof -
  obtain r1 s1 where a: "target_env_capture_lines orc [''pacman'', ''-Slq''] s = (r1, s1)"
    by (cases "target_env_capture_lines orc [''pacman'', ''-Slq''] s")
  obtain r2 s2 where b: "target_env_capture_lines orc [''pacman'', ''-Sgq''] s1 = (r2, s2)"
    by (cases "target_env_capture_lines orc [''pacman'', ''-Sgq''] s1")
  from steady_capture_lines[of s orc "[''pacman'', ''-Slq'']"] a have 1: "steady s s1" by simp
  from steady_capture_lines[of s1 orc "[''pacman'', ''-Sgq'']"] b have 2: "steady s1 s2" by simp
  from steady_trans[OF 1 2] have 3: "steady s s2" .
  from a b 1 3 show ?thesis
    by (auto simp: build_repo_index_def steady_emit_after split: sum.splits)
qed

lemma steady_subst_locale: "steady s (snd (subst_locale gs_loc plist s))"
  by (auto simp: subst_locale_def steady_heap split: prod.splits)

lemma steady_filter_operation_list:
  "steady s (snd (filter_operation_list key items pk gr s))"
proof (induction items arbitrary: s)
  case Nil
  then show ?case by simp
next
  case (Cons item items)
  have a: "steady s (snd (filter_operation_list key items pk gr (emit (Warning w) s)))" for w
    using steady_trans[OF steady_emit Cons.IH] by simp
  have b: "steady s (snd (filter_operation_list key items pk gr
            (emit (Debug d) (emit (Warning w) s))))" for w d
    using steady_trans[OF steady_emit_after[OF _ steady_emit] Cons.IH] by simp
  from a b Cons.IH[of s] show ?case
    by (auto simp: Let_def split: prod.splits)
qed

lemma steady_preprocess_items:
  "steady s (snd (preprocess_items loc pk gr items new_op tot s))"
proof (induction items arbitrary: new_op tot s)
  case Nil
  then show ?case by simp
next
  case (Cons kv items)
  obtain key raw where kv: "kv = (key, raw)" by (cases kv)
  obtain localized s1 where sl: "subst_locale loc raw s = (localized, s1)"
    by (cases "subst_locale loc raw s")
  obtain filtered s2 where fl: "filter_operation_list key localized pk gr s1 = (filtered, s2)"
    by (cases "filter_operation_list key localized pk gr s1")
  from steady_subst_locale[of s loc raw] sl have 1: "steady s s1" by simp
  from steady_filter_operation_list[of s1 key localized pk gr] fl have 2: "steady s1 s2" by simp
  note 12 = steady_trans[OF 1 2]
  from kv sl fl steady_trans[OF 1 Cons.IH] steady_trans[OF 12 Cons.IH] show ?case
    by simp
qed

lemma steady_preprocess_loop:
  "steady s (snd (preprocess_loop loc pk gr operations new_ops tot s))"
proof (induction operations arbitrary: new_ops tot s)
  case Nil
  then show ?case by simp
next
  case (Cons op operations)
  obtain new_op t1 s1 where pi: "preprocess_items loc pk gr op [] tot s = ((new_op, t1), s1)"
    by (cases "preprocess_items loc pk gr op [] tot s") auto
  from steady_preprocess_items[of s loc pk gr op "[]" tot] pi have "steady s s1" by simp
  from steady_trans[OF this Cons.IH] pi show ?case by simp
qed

lemma steady_preprocess_operations:
  "steady s (snd (preprocess_operations operations loc pk gr s))"
  by (simp add: preprocess_operations_def steady_preprocess_loop)

lemma steady_guarded: "(\<And>s. steady s (snd (m s))) \<Longrightarrow> steady s (snd (guarded b m s))"
  by (simp add: guarded_def)

lemma steady_manager_init:
  "pushes (manager_init s) = pushes s" "progress_fraction (manager_init s) = Lit0"
  "total_packages (manager_init s) = total_packages s"
  "completed_packages (manager_init s) = completed_packages s"
  by (simp_all add: manager_init_def pushes_def)

text \<open>
  When \<^verbatim>\<open>run\<close> of the pacman module gets to the end of preprocessing, nothing has changed
  since the constructor of the manager.
\<close>

lemma steady_pacman_prepare:
  assumes "pacman_prepare job orc s0 = (Continue x, s')"
  shows "steady (manager_init s0) s'"
proof -
  let ?m = "manager_init s0"
  let ?u = "except_called_process_error PackageManagerError
              (guarded (cfg_update_db job \<and> gs_has_internet job) (pacman_update_db job orc) ?m)"
  obtain r1 s1 where u: "?u = (r1, s1)" by (cases ?u)
  have "steady ?m (snd (guarded (cfg_update_db job \<and> gs_has_internet job)
                          (pacman_update_db job orc) ?m))"
    by (rule steady_guarded) (rule steady_pacman_update)
  from steady_except[OF this, of PackageManagerError] u have 1: "steady ?m s1" by simp
  let ?v = "except_called_process_error UpdateSystemError
              (guarded (cfg_update_system job \<and> gs_has_internet job)
                 (pacman_update_system job orc) s1)"
  obtain r2 s2 where v: "?v = (r2, s2)" by (cases ?v)
  have "steady s1 (snd (guarded (cfg_update_system job \<and> gs_has_internet job)
                          (pacman_update_system job orc) s1))"
    by (rule steady_guarded) (rule steady_pacman_update)
  from steady_except[OF this, of UpdateSystemError] v have "steady s1 s2" by simp
  with 1 have 2: "steady ?m s2" by (rule steady_trans)
  let ?w = "except_called_process_error RepositoryQueryFailed (build_repo_index orc s2)"
  obtain r3 s3 where w: "?w = (r3, s3)" by (cases ?w)
  have "steady s2 s3"
    using steady_except[OF steady_build_repo_index, of s2 RepositoryQueryFailed orc] w by simp
  with 2 have 3: "steady ?m s3" by (rule steady_trans)
  have 4: "steady ?m s4" if "preprocess_operations ops loc pk gr s3 = (r, s4)"
    for ops loc pk gr r s4
    using steady_trans[OF 3 steady_preprocess_operations[of s3 ops loc pk gr]] that by simp
  have "(\<exists>y. fst (pacman_prepare job orc s0) = Continue y)
        \<longrightarrow> steady ?m (snd (pacman_prepare job orc s0))"
    unfolding pacman_prepare_def Let_def
    using u v w 1 2 3
    by (auto simp: steady_emit split: stage.splits prod.splits dest: 4)
  with assms show ?thesis by simp
qed

text \<open>
  The pacstrap module has no counter and computes no quotient; its \<^verbatim>\<open>line_cb\<close> pushes the
  literal 0.
\<close>

lemma ratio_pushes_steady: "steady s s' \<Longrightarrow> ratio_pushes s' = ratio_pushes s"
proof -
  have "ratio_pushes t = filter is_ratio_push (pushes t)" for t
    by (auto simp: ratio_pushes_def pushes_def is_ratio_push_def is_push_def
        intro!: filter_cong split: event.splits pyfloat.splits)
  then show "steady s s' \<Longrightarrow> ratio_pushes s' = ratio_pushes s"
    by (simp add: steady_def)
qed

lemma ratio_pushes_emit:
  "\<not> is_ratio_push e \<Longrightarrow> ratio_pushes (emit e s) = ratio_pushes s"
  by (simp add: ratio_pushes_def emit_def)

lemma not_ratio_push [simp]:
  "\<not> is_ratio_push (Exec c cb)" "\<not> is_ratio_push (CheckCall c)" "\<not> is_ratio_push (HostExec c)"
  "\<not> is_ratio_push (Warning m)" "\<not> is_ratio_push (Debug m)" "\<not> is_ratio_push SetBuildEnv"
  "\<not> is_ratio_push StoreOnline" "\<not> is_ratio_push (CopyFile f)"
  "\<not> is_ratio_push (SetProgress Lit0)" "\<not> is_ratio_push (SetProgress Lit1)"
  by (simp_all add: is_ratio_push_def)

lemma ratio_pushes_host_line_cb: "ratio_pushes (host_line_cb lr s) = ratio_pushes s"
  by (simp add: host_line_cb_def Let_def ratio_pushes_emit) (simp add: ratio_pushes_def)

lemma ratio_pushes_fold_host_line_cb:
  "ratio_pushes (fold host_line_cb lrs s) = ratio_pushes s"
  by (induction lrs arbitrary: s) (simp_all add: ratio_pushes_host_line_cb)

lemma ratio_pushes_run_in_host:
  "ratio_pushes (snd (run_in_host orc command s)) = ratio_pushes s"
  by (simp add: run_in_host_def Let_def ratio_pushes_fold_host_line_cb ratio_pushes_emit)
     (simp add: ratio_pushes_def)

lemma steady_host_capture_lines: "steady s (snd (host_capture_lines orc command s))"
  by (simp add: host_capture_lines_def Let_def steady_def pushes_def emit_def)

lemma steady_build_repo_index_host: "steady s (snd (build_repo_index_host orc s))"
proof -
  obtain r1 s1 where a: "host_capture_lines orc [''pacman'', ''-Slq''] s = (r1, s1)"
    by (cases "host_capture_lines orc [''pacman'', ''-Slq''] s")
  obtain r2 s2 where b: "host_capture_lines orc [''pacman'', ''-Sgq''] s1 = (r2, s2)"
    by (cases "host_capture_lines orc [''pacman'', ''-Sgq''] s1")
  from steady_host_capture_lines[of s orc "[''pacman'', ''-Slq'']"] a have 1: "steady s s1" by simp
  from steady_host_capture_lines[of s1 orc "[''pacman'', ''-Sgq'']"] b have 2: "steady s1 s2" by simp
  from steady_trans[OF 1 2] have 3: "steady s s2" .
  from a b 1 3 show ?thesis
    by (auto simp: build_repo_index_host_def steady_emit_after split: sum.splits)
qed

lemma steady_add_bootloader_packages:
  "steady s (snd (add_bootloader_packages job base_packages s))"
  by (simp add: add_bootloader_packages_def Let_def steady_emit steady_emit_after)

lemma ratio_pushes_maybe_sync_db_host:
  "ratio_pushes (snd (maybe_sync_db_host job orc s)) = ratio_pushes s"
  by (simp add: maybe_sync_db_host_def ratio_pushes_run_in_host ratio_pushes_emit)

lemma ratio_pushes_pacstrap_prepare:
  "ratio_pushes (snd (pacstrap_prepare job orc s0)) = ratio_pushes s0"
proof (cases "pacstrap_check job")
  case (Inl err)
  then show ?thesis by (simp add: pacstrap_prepare_def)
next
  case (Inr base_packages0)
  obtain base_packages s1 where a: "add_bootloader_packages job base_packages0 s0 = (base_packages, s1)"
    by (cases "add_bootloader_packages job base_packages0 s0")
  from steady_add_bootloader_packages[of s0 job base_packages0] a
  have 1: "ratio_pushes s1 = ratio_pushes s0" by (simp add: ratio_pushes_steady)
  obtain r s' where m: "maybe_sync_db_host job orc s1 = (r, s')"
    by (cases "maybe_sync_db_host job orc s1")
  from ratio_pushes_maybe_sync_db_host[of job orc s1] m 1
  have m1: "ratio_pushes s' = ratio_pushes s0" by simp
  let ?s2 = "case maybe_sync_db_host job orc s1 of
               (Inl e, s') \<Rightarrow> emit (Warning (SyncFailed e)) s'
             | (Inr _, s') \<Rightarrow> s'"
  have 2: "ratio_pushes ?s2 = ratio_pushes s0"
    using m m1 by (cases r) (simp_all add: ratio_pushes_emit)
  obtain r3 s3 where b: "build_repo_index_host orc ?s2 = (r3, s3)"
    by (cases "build_repo_index_host orc ?s2")
  from steady_build_repo_index_host[of ?s2 orc] b have "ratio_pushes s3 = ratio_pushes ?s2"
    by (simp add: ratio_pushes_steady)
  with 2 have 3: "ratio_pushes s3 = ratio_pushes s0" by simp
  have 4: "ratio_pushes (snd (filter_operation_list k xs pk gr s3)) = ratio_pushes s0" for k xs pk gr
    using ratio_pushes_steady[OF steady_filter_operation_list[of s3 k xs pk gr]] 3 by simp
  have eq: "pacstrap_prepare job orc s0 =
      (case r3 of
         Inl e \<Rightarrow>
           if is_pacman_error e
           then (Inl RepositoryQueryError, emit (Warning (ExnText e)) s3)
           else (Inl PkgcheckFailed, emit (Warning (PkgcheckFailedText e)) s3)
       | Inr (repo_pkgs, repo_groups) \<Rightarrow>
           (case filter_operation_list ''basePackages'' base_packages repo_pkgs repo_groups s3 of
              (kept, s4) \<Rightarrow> (Inr kept, s4)))"
    unfolding pacstrap_prepare_def Let_def using Inr a b by simp
  show ?thesis
  proof (cases r3)
    case (Inl e)
    with eq 3 show ?thesis by (simp add: ratio_pushes_emit)
  next
    case (Inr pg)
    obtain pk gr where pg: "pg = (pk, gr)" by (cases pg)
    from 4[of "''basePackages''" base_packages pk gr] eq Inr pg show ?thesis
      by (simp split: prod.splits)
  qed
qed

text \<open>
  Claim C9. When preprocessing ends with the total 0, the run of the pacman module
  returns \<^verbatim>\<open>None\<close> in the state that preprocessing left (with the counters reset): no
  operation is dispatched, no command runs and nothing is pushed after preprocessing, and
  in the whole run no progress value was pushed and the stored fraction is the 0.0 that the
  constructor of the manager assigned, so no quotient by the total was computed. When the
  filter leaves no base package, the run of the pacstrap module returns \<^verbatim>\<open>None\<close> after a
  warning, the \<^verbatim>\<open>online\<close> flag and the literal 1.0: no \<^verbatim>\<open>pacstrap\<close> command runs and no
  quotient was pushed (the values that \<^verbatim>\<open>line_cb\<close> pushes while the database is synchronised
  are the literal 0).
\<close>

theorem zero_total_returns_success:
  "(pacman_prepare job orc s0 = (Continue (operations, 0), s1) \<longrightarrow>
      pacman_run job orc s0 = (Inr None, start_progress 0 s1)
      \<and> trace (start_progress 0 s1) = trace s1
      \<and> calls (start_progress 0 s1) = calls s1
      \<and> pushes s1 = pushes s0
      \<and> progress_fraction (start_progress 0 s1) = Lit0)
   \<and> (pacstrap_prepare pjob orc t0 = (Inr [], t1) \<longrightarrow>
      pacstrap_run pjob orc t0 =
        (None, emit (SetProgress Lit1) (emit StoreOnline (emit (Warning AllFilteredOut) t1)))
      \<and> ratio_pushes t1 = ratio_pushes t0)"
proof (intro conjI impI)
  assume p: "pacman_prepare job orc s0 = (Continue (operations, 0), s1)"
  then show "pacman_run job orc s0 = (Inr None, start_progress 0 s1)"
    by (simp add: pacman_run_def pacman_execute_def start_progress_def)
  show "trace (start_progress 0 s1) = trace s1" "calls (start_progress 0 s1) = calls s1"
    by (simp_all add: start_progress_def)
  from steady_pacman_prepare[OF p] have st: "steady (manager_init s0) s1" .
  then show "pushes s1 = pushes s0" by (simp add: steady_def steady_manager_init)
  from st show "progress_fraction (start_progress 0 s1) = Lit0"
    by (simp add: steady_def start_progress_def steady_manager_init)
next
  assume p: "pacstrap_prepare pjob orc t0 = (Inr [], t1)"
  then show "pacstrap_run pjob orc t0 =
        (None, emit (SetProgress Lit1) (emit StoreOnline (emit (Warning AllFilteredOut) t1)))"
    by (simp add: pacstrap_run_def pacstrap_install_def)
  from ratio_pushes_pacstrap_prepare[of pjob orc t0] p show "ratio_pushes t1 = ratio_pushes t0"
    by simp
qed

theorem zero_total_returns_success_witness:
  "fst (pacman_prepare job_missing repo_world (module_state no_objects)) = Continue ([], 0)
   \<and> fst (pacman_run job_missing repo_world (module_state no_objects)) = Inr None
   \<and> pushes (snd (pacman_run job_missing repo_world (module_state no_objects))) = []
   \<and> fst (pacstrap_prepare pacstrap_job_missing repo_world (module_state no_objects)) = Inr []
   \<and> fst (pacstrap_run pacstrap_job_missing repo_world (module_state no_objects)) = None
   \<and> ratio_pushes (snd (pacstrap_run pacstrap_job_missing repo_world (module_state no_objects)))
       = []"
proof -
  let ?s0 = "module_state no_objects"
  let ?p = "pacman_prepare job_missing repo_world ?s0"
  let ?q = "pacstrap_prepare pacstrap_job_missing repo_world ?s0"
  have ev: "fst ?p = Continue ([], 0)" by code_simp
  then have e: "?p = (Continue ([], 0), snd ?p)" by (metis prod.collapse)
  have ev2: "fst ?q = Inr []" by code_simp
  then have e2: "?q = (Inr [], snd ?q)" by (metis prod.collapse)
  have p0: "pushes ?s0 = []" "ratio_pushes ?s0 = []"
    by (simp_all add: pushes_def ratio_pushes_def module_state_def)
  note t = zero_total_returns_success[of job_missing repo_world ?s0 "[]" "snd ?p"
      pacstrap_job_missing ?s0 "snd ?q"]
  from t[THEN conjunct1, rule_format, OF e] p0
  have a: "fst (pacman_run job_missing repo_world ?s0) = Inr None"
    and b: "pushes (snd (pacman_run job_missing repo_world ?s0)) = []"
    by (simp_all add: pushes_def)
  from t[THEN conjunct2, rule_format, OF e2] p0
  have c: "fst (pacstrap_run pacstrap_job_missing repo_world ?s0) = None"
    and d: "ratio_pushes (snd (pacstrap_run pacstrap_job_missing repo_world ?s0)) = []"
    by (simp_all add: ratio_pushes_emit)
  from ev a b ev2 c d show ?thesis by simp
qed

section \<open>The paru module absorbs every failure\<close>

lemma settled_run_paru_loop:
  "settled callback s (snd (run_paru_loop job orc command callback attempts last_exc s))"
proof (induction job orc command callback attempts last_exc s rule: run_paru_loop.induct)
  case (1 job orc command callback attempts last_exc s)
  let ?cb = "line_callback ''paru: '' callback"
  show ?case
  proof (cases "attempts \<le> cfg_num_retries job")
    case False
    then show ?thesis by (subst run_paru_loop.simps) simp
  next
    case True
    obtain r s1 where t: "target_env_process_output orc command ?cb s = (r, s1)"
      by (cases "target_env_process_output orc command ?cb s")
    from settled_target_env_process_output[of callback s orc command "''paru: ''"] t
    have st: "settled callback s s1" by simp
    show ?thesis
    proof (cases "cfg_timeout job = 0")
      case T0: True
      show ?thesis
      proof (cases r)
        case (Inr x)
        with True T0 t st show ?thesis by (subst run_paru_loop.simps) simp
      next
        case (Inl e)
        show ?thesis
        proof (cases "attempts + 1 \<le> cfg_num_retries job")
          case False
          with True T0 t st Inl show ?thesis by (subst run_paru_loop.simps) simp
        next
          case T2: True
          from "1.IH"(1)[OF True T0 t[symmetric] Inl T2] st True T0 t Inl T2
          show ?thesis
            by (subst run_paru_loop.simps) (auto intro: settled_trans)
        qed
      qed
    next
      case F0: False
      show ?thesis
      proof (cases "late (orc (calls s) command)")
        case L: True
        let ?s1w = "emit (Warning (ParuTimedOut (cfg_timeout job))) s1"
        obtain r2 s2 where k: "target_env_process_output orc pkill_command NoCallback ?s1w = (r2, s2)"
          by (cases "target_env_process_output orc pkill_command NoCallback ?s1w")
        from steady_target_env_process_output(1)[of ?s1w orc pkill_command] k
        have "settled callback ?s1w s2" by (simp add: settled_steady)
        with settled_emit_after[OF _ st, of "Warning (ParuTimedOut (cfg_timeout job))"]
        have st2: "settled callback s s2" by (auto intro: settled_trans)
        show ?thesis
        proof (cases "attempts + 1 \<le> cfg_num_retries job")
          case False
          with True F0 t L k st2 show ?thesis by (subst run_paru_loop.simps) simp
        next
          case T2: True
          from "1.IH"(2)[OF True F0 t[symmetric] L k[symmetric] T2] st2 True F0 t L k T2
          show ?thesis
            by (subst run_paru_loop.simps) (auto intro: settled_trans)
        qed
      next
        case NL: False
        show ?thesis
        proof (cases r)
          case (Inr x)
          with True F0 t st NL show ?thesis by (subst run_paru_loop.simps) simp
        next
          case (Inl e)
          show ?thesis
          proof (cases "attempts + 1 \<le> cfg_num_retries job")
            case False
            with True F0 t st NL Inl show ?thesis by (subst run_paru_loop.simps) simp
          next
            case T2: True
            from "1.IH"(3)[OF True F0 t[symmetric] NL Inl T2] st True F0 t NL Inl T2
            show ?thesis
              by (subst run_paru_loop.simps) (auto intro: settled_trans)
          qed
        qed
      qed
    qed
  qed
qed

lemma settled_run_paru: "settled callback s (snd (run_paru job orc command callback s))"
proof -
  let ?l = "run_paru_loop job orc command callback 0 None (emit SetBuildEnv s)"
  obtain r s' where l: "?l = (r, s')" by (cases ?l)
  from settled_run_paru_loop[of callback "emit SetBuildEnv s" job orc command 0 None] l
  have "settled callback (emit SetBuildEnv s) s'" by simp
  with settled_emit_after[of SetBuildEnv callback s s] have "settled callback s s'"
    by (auto intro: settled_trans)
  with l show ?thesis
    by (auto simp: run_paru_def settled_emit_after split: option.splits)
qed

lemma steady_paru_update:
  "steady s (paru_update_db job orc s)" "steady s (paru_update_system job orc s)"
  using settled_run_paru[of False s job orc]
  by (simp_all add: paru_update_db_def paru_update_system_def settled_def)

lemma steady_ignoring_failure: "steady s (ignoring_failure orc command msg s)"
  using steady_target_env_process_output(1)[of s orc command]
  by (auto simp: ignoring_failure_def steady_emit_after split: prod.splits sum.splits)

lemma pushes_paru_init: "pushes (paru_init job orc s) = pushes s"
proof -
  have a: "pushes (ignoring_failure orc command msg t) = pushes t" for command msg t
    using steady_ignoring_failure[of t orc command msg] by (simp add: steady_def)
  show ?thesis
    by (simp add: paru_init_def Let_def a steady_manager_init)
qed

lemma total_paru_init: "total_packages (paru_init job orc s) = total_packages s"
proof -
  have a: "total_packages (ignoring_failure orc command msg t) = total_packages t" for command msg t
    using steady_ignoring_failure[of t orc command msg] by (simp add: steady_def)
  show ?thesis
    by (simp add: paru_init_def Let_def a steady_manager_init)
qed

lemma pushes_paru_count_values: "pushes (paru_count_values job op s) = pushes s"
proof (induction op arbitrary: s)
  case Nil
  then show ?case by simp
next
  case (Cons kv op)
  obtain pl s1 where sl: "subst_locale (gs_locale job) (snd kv) s = (pl, s1)"
    by (cases "subst_locale (gs_locale job) (snd kv) s")
  from steady_subst_locale[of s "gs_locale job" "snd kv"] sl have "pushes s1 = pushes s"
    by (simp add: steady_def)
  with sl Cons.IH[of "s1\<lparr>total_packages := total_packages s1 + int (length pl)\<rparr>"]
  show ?case by (simp add: pushes_def)
qed

lemma pushes_paru_count_total: "pushes (paru_count_total job operations s) = pushes s"
  by (induction operations arbitrary: s) (simp_all add: pushes_paru_count_values)

text \<open>The dispatch of the paru module never assigns \<^verbatim>\<open>total_packages\<close>.\<close>

lemma total_emit [simp]: "total_packages (emit e s) = total_packages s"
  by (simp add: emit_def)

lemma total_progress_push [simp]: "total_packages (progress_push s) = total_packages s"
  by (simp add: progress_push_def)

lemma total_change_mode [simp]: "total_packages (change_mode m s) = total_packages s"
  by (simp add: change_mode_def)

lemma total_reset_progress [simp]: "total_packages (reset_progress s) = total_packages s"
  by (simp add: reset_progress_def)

lemma total_run_paru [simp]:
  "total_packages (snd (run_paru job orc command callback s)) = total_packages s"
  using settled_run_paru[of callback s job orc command]
  by (simp add: settled_def counted_def steady_def split: if_splits)

lemma total_paru_install [simp]:
  "total_packages (paru_install job orc pkgs from_local s) = total_packages s"
  by (simp add: paru_install_def)

lemma total_paru_remove [simp]:
  "total_packages (paru_remove job orc pkgs s) = total_packages s"
  by (simp add: paru_remove_def)

lemma total_run_script [simp]:
  "total_packages (snd (run_script orc script s)) = total_packages s"
  using steady_run_script[of s orc script] by (simp add: steady_def)

lemma heap_check_target_env_call [simp]:
  "heap (snd (check_target_env_call orc command s)) = heap s"
  by (simp add: check_target_env_call_def Let_def)

lemma total_andthen:
  assumes m: "\<And>t. total_packages (snd (m t)) = total_packages t"
    and f: "\<And>x t. total_packages (snd (f x t)) = total_packages t"
  shows "total_packages (snd (andthen m f s)) = total_packages s"
proof -
  obtain r s1 where ms: "m s = (r, s1)" by (cases "m s")
  from m[of s] ms have 1: "total_packages s1 = total_packages s" by simp
  show ?thesis
  proof (cases r)
    case (Inl e)
    with ms 1 show ?thesis by (simp add: andthen_def)
  next
    case (Inr x)
    with ms 1 f[of x s1] show ?thesis by (simp add: andthen_def)
  qed
qed

lemma total_paru_install_package_body:
  "total_packages (snd (paru_install_package_body job orc packagedata from_local s))
     = total_packages s"
proof (cases packagedata)
  case (Str name)
  then show ?thesis by (simp add: paru_install_package_body_def)
next
  case (Obj r)
  have "total_packages (snd (andthen (run_script orc (get_or_empty (pre_script (heap s r))))
            (\<lambda>_. andthen
               (\<lambda>s1. case package (heap s1 r) of
                        None \<Rightarrow> (Inl KeyError, s1)
                      | Some name \<Rightarrow> (Inr (), paru_install job orc [name] from_local s1))
               (\<lambda>_ s2. run_script orc (get_or_empty (post_script (heap s2 r))) s2)) s))
        = total_packages s"
    by (intro total_andthen) (simp_all split: option.splits)
  with Obj show ?thesis by (simp add: paru_install_package_body_def)
qed

lemma total_paru_remove_package_body:
  "total_packages (snd (paru_remove_package_body job orc packagedata s)) = total_packages s"
proof (cases packagedata)
  case (Str name)
  then show ?thesis by (simp add: paru_remove_package_body_def)
next
  case (Obj r)
  have "total_packages (snd (andthen (run_script orc (get_or_empty (pre_script (heap s r))))
            (\<lambda>_. andthen
               (\<lambda>s1. case package (heap s1 r) of
                        None \<Rightarrow> (Inl KeyError, s1)
                      | Some name \<Rightarrow> (Inr (), paru_remove job orc [name] s1))
               (\<lambda>_ s2. run_script orc (get_or_empty (post_script (heap s2 r))) s2)) s))
        = total_packages s"
    by (intro total_andthen) (simp_all split: option.splits)
  with Obj show ?thesis by (simp add: paru_remove_package_body_def)
qed

lemma total_paru_install_package [simp]:
  "total_packages (paru_install_package job orc packagedata from_local s) = total_packages s"
  using total_paru_install_package_body[of job orc packagedata from_local s]
  by (auto simp: paru_install_package_def split: prod.splits sum.splits)

lemma total_paru_remove_package [simp]:
  "total_packages (paru_remove_package job orc packagedata s) = total_packages s"
  using total_paru_remove_package_body[of job orc packagedata s]
  by (auto simp: paru_remove_package_def split: prod.splits sum.splits)

lemma total_paru_operation_install [simp]:
  "total_packages (paru_operation_install job orc package_list from_local s) = total_packages s"
  by (induction package_list arbitrary: s) simp_all

lemma total_paru_operation_remove [simp]:
  "total_packages (paru_operation_remove job orc package_list s) = total_packages s"
  by (induction package_list arbitrary: s) simp_all

lemma total_paru_dispatch [simp]:
  "total_packages (paru_dispatch job orc key val package_list s) = total_packages s"
  by (simp add: paru_dispatch_def paru_operation_try_install_def paru_operation_try_remove_def)

lemma total_subst_locale [simp]:
  "total_packages (snd (subst_locale gs_loc plist s)) = total_packages s"
  using steady_subst_locale[of s gs_loc plist] by (simp add: steady_def)

lemma total_paru_run_key [simp]:
  "total_packages (paru_run_key job orc kv s) = total_packages s"
proof -
  obtain pl s1 where sl: "subst_locale (gs_locale job) (snd kv) s = (pl, s1)"
    by (cases "subst_locale (gs_locale job) (snd kv) s")
  from total_subst_locale[of "gs_locale job" "snd kv" s] sl
  have "total_packages s1 = total_packages s" by simp
  with sl show ?thesis by (simp add: paru_run_key_def Let_def)
qed

lemma total_paru_run_keys [simp]:
  "total_packages (paru_run_keys job orc entry s) = total_packages s"
  by (induction entry arbitrary: s) simp_all

lemma total_paru_run_operations [simp]:
  "total_packages (snd (paru_run_operations job orc entry s)) = total_packages s"
  by (simp add: paru_run_operations_def)

lemma paru_run_operations_returns: "fst (paru_run_operations job orc entry s) = Inr ()"
  by (simp add: paru_run_operations_def)

lemma total_paru_run_loop [simp]:
  "total_packages (paru_run_loop job orc operations s) = total_packages s"
proof (induction operations arbitrary: s)
  case Nil
  then show ?case by simp
next
  case (Cons entry operations)
  let ?r = "paru_run_operations job orc entry (emit (Debug PrettyName) (s\<lparr>group_packages := 0\<rparr>))"
  from total_paru_run_operations[of job orc entry "emit (Debug PrettyName) (s\<lparr>group_packages := 0\<rparr>)"]
  have "total_packages (snd ?r) = total_packages s" by simp
  then show ?case
    by (cases ?r) (auto simp: Cons.IH split: sum.splits)
qed

text \<open>
  Claim C3, as amended. With the backend \<^verbatim>\<open>paru\<close>, for every operation list and every
  answer of the commands, \<^verbatim>\<open>run\<close> returns \<^verbatim>\<open>None\<close>: no error and no exception. When the
  run is not skipped for lack of internet and the total is not 0, its last action is to
  push 1.0; when the total is 0 it returns without pushing anything.
\<close>

theorem paru_run_never_fails:
  assumes "cfg_backend job = None \<or> cfg_backend job = Some ''paru''"
  shows "fst (paru_run job orc s) = Inr None
       \<and> (total_packages (snd (paru_run job orc s)) \<noteq> 0 \<longrightarrow>
            \<not> (cfg_skip_if_no_internet job \<and> \<not> gs_has_internet job) \<longrightarrow>
            last (trace (snd (paru_run job orc s))) = SetProgress Lit1)
       \<and> (total_packages (snd (paru_run job orc s)) = 0 \<longrightarrow>
            \<not> (cfg_skip_if_no_internet job \<and> \<not> gs_has_internet job) \<longrightarrow>
            pushes (snd (paru_run job orc s)) = pushes s)"
proof -
  from assms have b: "(case cfg_backend job of None \<Rightarrow> ''paru'' | Some b \<Rightarrow> b) = ''paru''"
    by auto
  let ?s1 = "paru_init job orc s"
  let ?s2 = "if cfg_update_db job \<and> gs_has_internet job then paru_update_db job orc ?s1 else ?s1"
  let ?s3 = "if cfg_update_system job \<and> gs_has_internet job
             then paru_update_system job orc ?s2 else ?s2"
  let ?s4 = "paru_count_total job (paru_operations job) (start_progress 0 ?s3)"
  have pu: "pushes (paru_update_db job orc t) = pushes t"
    "pushes (paru_update_system job orc t) = pushes t" for t
    using steady_paru_update[of t job orc] by (simp_all add: steady_def)
  have ps: "pushes (start_progress 0 t) = pushes t" for t
    by (simp add: pushes_def start_progress_def)
  have p4: "pushes ?s4 = pushes s"
    by (simp add: pushes_paru_count_total ps pu pushes_paru_init)
  have eq: "\<not> (cfg_skip_if_no_internet job \<and> \<not> gs_has_internet job) \<Longrightarrow>
        paru_run job orc s =
          (if total_packages ?s4 = 0 then (Inr None, ?s4)
           else (Inr None, emit (SetProgress Lit1)
                   ((paru_run_loop job orc (paru_operations job) ?s4)\<lparr>mode_packages := NoMode\<rparr>)))"
    using b by (auto simp: paru_run_def Let_def)
  have r: "fst (paru_run job orc s) = Inr None"
    using b by (simp add: paru_run_def Let_def)
  have l: "total_packages (snd (paru_run job orc s)) \<noteq> 0 \<longrightarrow>
            \<not> (cfg_skip_if_no_internet job \<and> \<not> gs_has_internet job) \<longrightarrow>
            last (trace (snd (paru_run job orc s))) = SetProgress Lit1"
    using eq by (auto simp: emit_def split: if_splits)
  have z: "total_packages (snd (paru_run job orc s)) = 0 \<longrightarrow>
            \<not> (cfg_skip_if_no_internet job \<and> \<not> gs_has_internet job) \<longrightarrow>
            pushes (snd (paru_run job orc s)) = pushes s"
  proof (intro impI)
    assume t0: "total_packages (snd (paru_run job orc s)) = 0"
      and ns: "\<not> (cfg_skip_if_no_internet job \<and> \<not> gs_has_internet job)"
    have "total_packages ?s4 = 0"
    proof (rule ccontr)
      assume n: "total_packages ?s4 \<noteq> 0"
      with eq[OF ns] have "total_packages (snd (paru_run job orc s)) = total_packages ?s4"
        by simp
      with t0 n show False by simp
    qed
    with eq[OF ns] p4 show "pushes (snd (paru_run job orc s)) = pushes s" by simp
  qed
  from r l z show ?thesis by blast
qed

theorem paru_run_never_fails_witness:
  "total_packages (snd (paru_run job_try_remove_paru remove_fails (module_state no_objects))) = 5
   \<and> fst (paru_run job_try_remove_paru remove_fails (module_state no_objects)) = Inr None
   \<and> last (trace (snd (paru_run job_try_remove_paru remove_fails (module_state no_objects))))
       = SetProgress Lit1
   \<and> Warning (ParuCommandFailed (sudo_paru @ [''-Rs'', ''--noconfirm'', ''x'']))
       \<in> set (trace (snd (paru_run job_try_remove_paru remove_fails (module_state no_objects))))"
proof -
  let ?r = "paru_run job_try_remove_paru remove_fails (module_state no_objects)"
  have t: "total_packages (snd ?r) = 5" by code_simp
  have w: "Warning (ParuCommandFailed (sudo_paru @ [''-Rs'', ''--noconfirm'', ''x'']))
       \<in> set (trace (snd ?r))" by code_simp
  have b: "cfg_backend job_try_remove_paru = None \<or> cfg_backend job_try_remove_paru = Some ''paru''"
    by (simp add: job_try_remove_paru_def default_job_def)
  have n: "\<not> (cfg_skip_if_no_internet job_try_remove_paru \<and> \<not> gs_has_internet job_try_remove_paru)"
    by (simp add: job_try_remove_paru_def default_job_def)
  from paru_run_never_fails[OF b, of remove_fails "module_state no_objects"] t n w
  show ?thesis by simp
qed

text \<open>
  Claim C3 as stated fails: the second scenario of the spec, whose operation has no
  \<^verbatim>\<open>source\<close> tag, and the empty operation list both end with the total 0, and \<^verbatim>\<open>run\<close>
  returns \<^verbatim>\<open>None\<close> without pushing 1.0.
\<close>

theorem paru_run_without_final_push:
  "fst (paru_run job_try_remove remove_fails (module_state no_objects)) = Inr None
   \<and> pushes (snd (paru_run job_try_remove remove_fails (module_state no_objects))) = []
   \<and> fst (paru_run default_job remove_fails (module_state no_objects)) = Inr None
   \<and> pushes (snd (paru_run default_job remove_fails (module_state no_objects))) = []"
  by code_simp

section \<open>Keys that the dispatcher does not know\<close>

lemma subst_locale_only_heap:
  "snd (subst_locale gs_loc plist s) = s\<lparr>heap := heap (snd (subst_locale gs_loc plist s))\<rparr>"
  by (simp add: subst_locale_def split: prod.splits)

text \<open>
  Claim C1, as amended. In the paru module, whose total counts the list under every key,
  a key that is not one of the six is logged as unknown and runs no command; the mode
  and the total stay as they are; \<^verbatim>\<open>group_packages\<close> becomes the length of the resolved
  list and \<^verbatim>\<open>completed_packages\<close> grows by it, and the new quotient is pushed when the
  total is positive. So the counters are as they were only when the resolved list is
  empty.
\<close>

theorem unknown_key_is_counted:
  assumes "key \<notin> recognized_keys"
  shows "completed_packages (paru_run_key job orc (key, val) s)
           = completed_packages s + int (length (fst (subst_locale (gs_locale job) val s)))
       \<and> group_packages (paru_run_key job orc (key, val) s)
           = int (length (fst (subst_locale (gs_locale job) val s)))
       \<and> total_packages (paru_run_key job orc (key, val) s) = total_packages s
       \<and> mode_packages (paru_run_key job orc (key, val) s) = mode_packages s
       \<and> calls (paru_run_key job orc (key, val) s) = calls s
       \<and> trace (paru_run_key job orc (key, val) s)
           = trace s @ Warning (UnknownKey key)
               # (if total_packages s > 0
                  then [SetProgress (Ratio
                          (completed_packages s
                             + int (length (fst (subst_locale (gs_locale job) val s))))
                          (total_packages s))]
                  else [])"
proof -
  obtain pl s1 where sl: "subst_locale (gs_locale job) val s = (pl, s1)"
    by (cases "subst_locale (gs_locale job) val s")
  from subst_locale_only_heap[of "gs_locale job" val s] sl
  have s1: "s1 = s\<lparr>heap := heap s1\<rparr>" by simp
  from assms have d: "paru_dispatch job orc key val pl t = emit (Warning (UnknownKey key)) t" for t
    by (simp add: paru_dispatch_def recognized_keys_def executable_keys_def)
  have "paru_run_key job orc (key, val) s =
          progress_push ((emit (Warning (UnknownKey key)) (s1\<lparr>group_packages := int (length pl)\<rparr>))
             \<lparr>completed_packages := completed_packages s1 + int (length pl)\<rparr>)"
    using sl by (simp add: paru_run_key_def Let_def d emit_def)
  then show ?thesis
    using sl by (subst (asm) s1, subst (asm) (2) s1) (simp add: progress_push_def emit_def)
qed

theorem unknown_key_is_counted_witness:
  "''bogus'' \<notin> recognized_keys
   \<and> completed_packages (paru_run_key default_job repo_world
         (''bogus'', VList [Str ''x'', Str ''y'']) (module_state no_objects)) = 2
   \<and> group_packages (paru_run_key default_job repo_world
         (''bogus'', VList [Str ''x'', Str ''y'']) (module_state no_objects)) = 2
   \<and> calls (paru_run_key default_job repo_world
         (''bogus'', VList [Str ''x'', Str ''y'']) (module_state no_objects)) = 0
   \<and> trace (paru_run_key default_job repo_world
         (''bogus'', VList [Str ''x'', Str ''y'']) (module_state no_objects))
       = [Warning (UnknownKey ''bogus'')]"
proof -
  have k: "''bogus'' \<notin> recognized_keys"
    by (simp add: recognized_keys_def executable_keys_def)
  have n: "fst (subst_locale (gs_locale default_job) (VList [Str ''x'', Str ''y''])
                  (module_state no_objects)) = [Str ''x'', Str ''y'']"
    by (simp add: default_job_def subst_locale_def locale_or_en_def iterate_def
        packagename_of_def localize_def)
  from unknown_key_is_counted[OF k, of default_job repo_world "VList [Str ''x'', Str ''y'']"
      "module_state no_objects"] k
  show ?thesis unfolding n by (simp add: module_state_def)
qed

text \<open>
  Claim C1 as stated fails in both modules: after an operation with the unknown key
  \<^verbatim>\<open>bogus\<close> and one entry, \<^verbatim>\<open>completed_packages\<close> is 1, and 0 without the key.
\<close>

theorem unknown_key_changes_completed:
  "completed_packages (snd (paru_run_operations default_job repo_world
       [(''bogus'', VList [Str ''x''])] (module_state no_objects))) = 1
   \<and> completed_packages (snd (paru_run_operations default_job repo_world []
       (module_state no_objects))) = 0
   \<and> completed_packages (snd (pacman_run_operations default_job repo_world
       [(''bogus'', VList [Str ''x''])] (module_state no_objects))) = 1
   \<and> completed_packages (snd (pacman_run_operations default_job repo_world []
       (module_state no_objects))) = 0"
  by code_simp

section \<open>The counter of the pacman module can pass its total\<close>

text \<open>
  Claim C2 does not hold of the code. The total of the pacman module comes from
  \<^verbatim>\<open>preprocess_operations\<close>, which leaves out the list under \<^verbatim>\<open>source\<close> (and under any key
  that is not executable), while \<^verbatim>\<open>run_operations\<close> adds the length of the list under
  every key to \<^verbatim>\<open>completed_packages\<close>. With one package to install and the source tag
  \<^verbatim>\<open>core\<close>, which becomes a list of four characters, the run ends with the total 1 and
  the counter at 5, and pushes the fraction 5/1.
\<close>

theorem pacman_completed_exceeds_total:
  "fst (pacman_run job_with_source repo_world (module_state no_objects)) = Inr None
   \<and> total_packages (snd (pacman_run job_with_source repo_world (module_state no_objects))) = 1
   \<and> completed_packages (snd (pacman_run job_with_source repo_world (module_state no_objects))) = 5
   \<and> pushes (snd (pacman_run job_with_source repo_world (module_state no_objects)))
       = [SetProgress (Ratio 0 1), SetProgress (Ratio 1 1), SetProgress (Ratio 5 1),
          SetProgress (Ratio 5 1), SetProgress Lit1]"
  by code_simp

end
